theory Spec2Isabelle
  imports Main "HOL-Library.Word" "HOL-Library.Multiset"
begin

section \<open>Error log (XMLErrorLog / SBMLErrorLog as used by SBMLDocument.cpp)\<close>

text \<open>
  The enumerations come from headers that SBMLDocument.cpp includes.  Only the
  constants the document code names are needed; the remaining severities of the
  enumeration are kept so that a severity table can answer with them.
\<close>

datatype XMLErrorSeverity_t =
    LIBSBML_SEV_INFO
  | LIBSBML_SEV_WARNING
  | LIBSBML_SEV_ERROR
  | LIBSBML_SEV_FATAL
  | LIBSBML_SEV_NOT_APPLICABLE

datatype XMLErrorSeverityOverride_t =
    LIBSBML_OVERRIDE_DISABLED
  | LIBSBML_OVERRIDE_DONT_LOG
  | LIBSBML_OVERRIDE_WARNING
  | LIBSBML_OVERRIDE_ERROR

datatype SBMLErrorCategory_t =
    LIBSBML_CAT_GENERAL_CONSISTENCY
  | LIBSBML_CAT_IDENTIFIER_CONSISTENCY
  | LIBSBML_CAT_UNITS_CONSISTENCY
  | LIBSBML_CAT_MATHML_CONSISTENCY
  | LIBSBML_CAT_SBO_CONSISTENCY
  | LIBSBML_CAT_OVERDETERMINED_MODEL
  | LIBSBML_CAT_MODELING_PRACTICE

text \<open>
  Error identifiers are unsigned integers in the source.  The four identifiers the
  compatibility checks log are named constants of an enumeration whose numeric
  values are not needed; every other identifier is carried as its number.
\<close>

datatype SBMLErrorCode_t =
    StrictUnitsRequiredInL1
  | StrictUnitsRequiredInL2v1
  | StrictUnitsRequiredInL2v2
  | StrictUnitsRequiredInL2v3
  | ErrorId nat

record SBMLError =
  getErrorId :: SBMLErrorCode_t
  getSeverity :: XMLErrorSeverity_t

record SBMLErrorLog =
  mErrors :: "SBMLError list"
  mOverriddenSeverity :: XMLErrorSeverityOverride_t

definition getSeverityOverride :: "SBMLErrorLog \<Rightarrow> XMLErrorSeverityOverride_t" where
  "getSeverityOverride lg = mOverriddenSeverity lg"

definition setSeverityOverride :: "XMLErrorSeverityOverride_t \<Rightarrow> SBMLErrorLog \<Rightarrow> SBMLErrorLog" where
  "setSeverityOverride ov lg = lg\<lparr>mOverriddenSeverity := ov\<rparr>"

text \<open>
  Modelled from the spec: the error log's \<open>add\<close> (XMLErrorLog::add, defined in XMLErrorLog.cpp).  The spec describes the override as a
  severity-escalation toggle, "force-as-error / force-as-warning", in force for the
  duration of a pass: a failure added while the override is \<open>ERROR\<close> is recorded with
  severity error, while it is \<open>WARNING\<close> with severity warning, while it is disabled
  with its own severity; under \<open>DONT_LOG\<close> nothing is recorded.
\<close>

definition applyOverride :: "XMLErrorSeverityOverride_t \<Rightarrow> SBMLError \<Rightarrow> SBMLError option" where
  "applyOverride ov e =
     (case ov of
        LIBSBML_OVERRIDE_DISABLED \<Rightarrow> Some e
      | LIBSBML_OVERRIDE_DONT_LOG \<Rightarrow> None
      | LIBSBML_OVERRIDE_WARNING \<Rightarrow> Some (e\<lparr>getSeverity := LIBSBML_SEV_WARNING\<rparr>)
      | LIBSBML_OVERRIDE_ERROR \<Rightarrow> Some (e\<lparr>getSeverity := LIBSBML_SEV_ERROR\<rparr>))"

definition add :: "SBMLError \<Rightarrow> SBMLErrorLog \<Rightarrow> SBMLErrorLog" where
  "add e lg =
     (case applyOverride (mOverriddenSeverity lg) e of
        None \<Rightarrow> lg
      | Some e' \<Rightarrow> lg\<lparr>mErrors := mErrors lg @ [e']\<rparr>)"

text \<open>\<open>add\<close> of a list of failures adds them one by one, in order.\<close>

fun add_list :: "SBMLError list \<Rightarrow> SBMLErrorLog \<Rightarrow> SBMLErrorLog" where
  "add_list [] lg = lg"
| "add_list (e # es) lg = add_list es (add e lg)"

definition getNumFailsWithSeverity :: "XMLErrorSeverity_t \<Rightarrow> SBMLErrorLog \<Rightarrow> nat" where
  "getNumFailsWithSeverity sev lg = length (filter (\<lambda>e. getSeverity e = sev) (mErrors lg))"

section \<open>The document\<close>

text \<open>
  Modelled from the spec: XMLAttributes, the container of the two tables of
  \<open>required\<close> attributes of unknown packages (it is defined in XMLAttributes.cpp).
  The spec keeps the data of unknown and disabled packages in "a side table keyed
  by (uri, prefix)", modelled "as a map keyed by (namespace, prefix) holding opaque
  attribute/element payloads".  Both tables are such maps: the key is the pair of
  namespace URI and prefix, the payload the attribute's name and value.  The
  position \<open>i\<close> under which the document code reads an entry (\<open>getName(i)\<close>,
  \<open>getValue(i)\<close>, \<open>getURI(i)\<close>, \<open>getPrefix(i)\<close>) and removes it (\<open>remove(i)\<close>) stands for
  the entry's key; \<open>add(name, value, uri, prefix)\<close> stores the payload under the key.
\<close>

record XMLAttr =
  attrName :: string
  attrValue :: string

type_synonym XMLAttributes = "string \<times> string \<rightharpoonup> XMLAttr"

definition XMLAttributes_add :: "string \<Rightarrow> string \<Rightarrow> string \<Rightarrow> string \<Rightarrow> XMLAttributes \<Rightarrow> XMLAttributes" where
  "XMLAttributes_add n v u p t = t((u, p) \<mapsto> \<lparr>attrName = n, attrValue = v\<rparr>)"

definition XMLAttributes_remove :: "string \<Rightarrow> string \<Rightarrow> XMLAttributes \<Rightarrow> XMLAttributes" where
  "XMLAttributes_remove u p t = t((u, p) := None)"

text \<open>
  The document.  The model, the plugins and the attached validators are classes
  defined elsewhere; the document only holds them, so they are type parameters.
  \<open>mApplicableValidators\<close> is the internal validator's set of enabled check
  categories.
\<close>

record ('m, 'p, 'v) SBMLDocument =
  mLevel :: nat
  mVersion :: nat
  mMetaId :: string
  mModel :: "'m option"
  mPlugins :: "'p list"
  mValidators :: "'v list"
  mErrorLog :: SBMLErrorLog
  mApplicableValidators :: "SBMLErrorCategory_t set"
  mRequiredAttrOfUnknownPkg :: XMLAttributes
  mRequiredAttrOfUnknownDisabledPkg :: XMLAttributes
  mPkgUseDefaultNSMap :: "string \<rightharpoonup> bool"

definition getNumErrors :: "XMLErrorSeverity_t \<Rightarrow> ('m, 'p, 'v) SBMLDocument \<Rightarrow> nat" where
  "getNumErrors sev d = getNumFailsWithSeverity sev (mErrorLog d)"

text \<open>
  Modelled from the spec: SBMLInternalValidator::setConsistencyChecks (defined in
  SBMLInternalValidator.cpp): "a caller selects which categories apply".
\<close>

definition setConsistencyChecks ::
  "SBMLErrorCategory_t \<Rightarrow> bool \<Rightarrow> ('m, 'p, 'v) SBMLDocument \<Rightarrow> ('m, 'p, 'v) SBMLDocument" where
  "setConsistencyChecks cat apply d =
     d\<lparr>mApplicableValidators :=
         (if apply then insert cat (mApplicableValidators d)
          else mApplicableValidators d - {cat})\<rparr>"


definition withOverride ::
  "XMLErrorSeverityOverride_t \<Rightarrow> ('m, 'p, 'v) SBMLDocument \<Rightarrow> ('m, 'p, 'v) SBMLDocument" where
  "withOverride ov d = d\<lparr>mErrorLog := setSeverityOverride ov (mErrorLog d)\<rparr>"

subsection \<open>Collaborators of the document\<close>

text \<open>
  The validators, the plugins and the SBMLError constructor are classes of their own;
  the document calls them and uses what they return.  They are parameters of the
  model.  A check pass run on behalf of the document (\<open>mInternalValidator->check...\<close>,
  a document plugin's \<open>checkConsistency\<close>) reads the document, returns its number of
  failures and leaves the document's error log in some state (validation never
  changes the tree).  A validator object (\<open>validate(*this)\<close> followed by
  \<open>getFailures()\<close>) returns its number of failures and the failures themselves.
  \<open>SBMLError_ctor code level version\<close> is the error object \<open>SBMLError(code, level,
  version)\<close>, whose severity comes from the per-revision severity table.
\<close>

type_synonym ('m, 'p, 'v) check_pass = "('m, 'p, 'v) SBMLDocument \<Rightarrow> 32 word \<times> SBMLErrorLog"

type_synonym ('m, 'p, 'v) validator_run = "('m, 'p, 'v) SBMLDocument \<Rightarrow> 32 word \<times> SBMLError list"

record ('m, 'p, 'v) collaborators =
  internal_checkConsistency :: "('m, 'p, 'v) check_pass"
  internal_checkL1Compatibility :: "('m, 'p, 'v) check_pass"
  internal_checkL2v1Compatibility :: "('m, 'p, 'v) check_pass"
  internal_checkL2v2Compatibility :: "('m, 'p, 'v) check_pass"
  internal_checkL2v3Compatibility :: "('m, 'p, 'v) check_pass"
  plugin_checkConsistency :: "'p \<Rightarrow> ('m, 'p, 'v) check_pass"
  validator_validate :: "'v \<Rightarrow> ('m, 'p, 'v) validator_run"
  UnitConsistencyValidator_validate :: "('m, 'p, 'v) validator_run"
  StrictUnitConsistencyValidator_validate :: "('m, 'p, 'v) validator_run"
  SBMLError_ctor :: "SBMLErrorCode_t \<Rightarrow> nat \<Rightarrow> nat \<Rightarrow> SBMLError"

definition logError ::
  "('m, 'p, 'v) collaborators \<Rightarrow> SBMLErrorCode_t \<Rightarrow> nat \<Rightarrow> nat \<Rightarrow> SBMLErrorLog \<Rightarrow> SBMLErrorLog" where
  "logError env code level version lg = add (SBMLError_ctor env code level version) lg"

subsection \<open>checkConsistency and checkConsistencyWithStrictUnits\<close>

text \<open>The loop over the document plugins: \<open>numErrors += getPlugin(i)->checkConsistency()\<close>.\<close>

fun plugins_checkConsistency ::
  "('m, 'p, 'v) collaborators \<Rightarrow> 'p list \<Rightarrow> 32 word \<times> ('m, 'p, 'v) SBMLDocument
     \<Rightarrow> 32 word \<times> ('m, 'p, 'v) SBMLDocument" where
  "plugins_checkConsistency env [] (numErrors, d) = (numErrors, d)"
| "plugins_checkConsistency env (p # ps) (numErrors, d) =
     (let (k, lg) = plugin_checkConsistency env p d
      in plugins_checkConsistency env ps (numErrors + k, d\<lparr>mErrorLog := lg\<rparr>))"

text \<open>
  The loop over \<open>mValidators\<close>.  \<open>newErrors\<close> is the validator's unsigned count held in
  a \<open>long\<close>; it is positive exactly when the count is not zero, and adding it to the
  unsigned \<open>numErrors\<close> wraps at 32 bits.
\<close>

fun validators_validate ::
  "('m, 'p, 'v) collaborators \<Rightarrow> 'v list \<Rightarrow> 32 word \<times> ('m, 'p, 'v) SBMLDocument
     \<Rightarrow> 32 word \<times> ('m, 'p, 'v) SBMLDocument" where
  "validators_validate env [] (numErrors, d) = (numErrors, d)"
| "validators_validate env (v # vs) (numErrors, d) =
     (let (newErrors, failures) = validator_validate env v d
      in if newErrors > 0
         then validators_validate env vs
                (numErrors + newErrors, d\<lparr>mErrorLog := add_list failures (mErrorLog d)\<rparr>)
         else validators_validate env vs (numErrors, d))"

text \<open>
  The three steps both consistency checks share, written out twice in the source:
  the internal validator, the plugins, the attached validators.
\<close>

definition run_checks ::
  "('m, 'p, 'v) collaborators \<Rightarrow> ('m, 'p, 'v) SBMLDocument \<Rightarrow> 32 word \<times> ('m, 'p, 'v) SBMLDocument" where
  "run_checks env d =
     (let (numErrors, lg) = internal_checkConsistency env d;
          d1 = d\<lparr>mErrorLog := lg\<rparr>;
          r2 = plugins_checkConsistency env (mPlugins d1) (numErrors, d1)
      in validators_validate env (mValidators (snd r2)) r2)"


definition checkConsistencyWithStrictUnits ::
  "('m, 'p, 'v) collaborators \<Rightarrow> ('m, 'p, 'v) SBMLDocument \<Rightarrow> 32 word \<times> ('m, 'p, 'v) SBMLDocument" where
  "checkConsistencyWithStrictUnits env d =
     (let overrideStatus = getSeverityOverride (mErrorLog d);
          d0 = withOverride LIBSBML_OVERRIDE_DISABLED d;
          d0' = setConsistencyChecks LIBSBML_CAT_UNITS_CONSISTENCY False d0;
          (numErrors, d1) = run_checks env d0';
          seriousErrors = (getNumErrors LIBSBML_SEV_FATAL d1 > 0
                           \<or> getNumErrors LIBSBML_SEV_ERROR d1 > 0)
      in if seriousErrors
         then (numErrors, withOverride overrideStatus d1)
         else
           (let d2 = withOverride LIBSBML_OVERRIDE_ERROR d1;
                (nerrors, failures) = StrictUnitConsistencyValidator_validate env d2;
                d3 = (if nerrors > 0
                      then d2\<lparr>mErrorLog := add_list failures (mErrorLog d2)\<rparr>
                      else d2)
            in (numErrors + nerrors, withOverride overrideStatus d3)))"

subsection \<open>Level and version compatibility checks\<close>

definition getLevelVersionSeverity ::
  "('m, 'p, 'v) collaborators \<Rightarrow> SBMLErrorCode_t \<Rightarrow> nat \<Rightarrow> nat \<Rightarrow> XMLErrorSeverity_t" where
  "getLevelVersionSeverity env errorId level version =
     getSeverity (SBMLError_ctor env errorId level version)"

text \<open>
  The scan of the unit validator's failures,
  \<open>while (!logUnitError && it != errors.end())\<close>, in its two forms: the body that
  assigns \<open>logUnitError = (sev == LIBSBML_SEV_ERROR)\<close> (L1, L2v2, L2v3) and the body that
  sets \<open>logUnitError = true\<close> under an \<open>if\<close> (L2v1).  \<open>level\<close> and \<open>version\<close> are the
  constants the body passes to \<open>getLevelVersionSeverity\<close>.
\<close>

fun scan_assign ::
  "('m, 'p, 'v) collaborators \<Rightarrow> nat \<Rightarrow> nat \<Rightarrow> bool \<Rightarrow> SBMLError list \<Rightarrow> bool" where
  "scan_assign env level version logUnitError [] = logUnitError"
| "scan_assign env level version logUnitError (err # rest) =
     (if \<not> logUnitError
      then scan_assign env level version
             (getLevelVersionSeverity env (getErrorId err) level version = LIBSBML_SEV_ERROR) rest
      else logUnitError)"

fun scan_if ::
  "('m, 'p, 'v) collaborators \<Rightarrow> nat \<Rightarrow> nat \<Rightarrow> bool \<Rightarrow> SBMLError list \<Rightarrow> bool" where
  "scan_if env level version logUnitError [] = logUnitError"
| "scan_if env level version logUnitError (err # rest) =
     (if \<not> logUnitError
      then scan_if env level version
             (if getLevelVersionSeverity env (getErrorId err) level version = LIBSBML_SEV_ERROR
              then True else logUnitError) rest
      else logUnitError)"

definition checkL1Compatibility ::
  "('m, 'p, 'v) collaborators \<Rightarrow> bool \<Rightarrow> ('m, 'p, 'v) SBMLDocument
     \<Rightarrow> 32 word \<times> ('m, 'p, 'v) SBMLDocument" where
  "checkL1Compatibility env inConversion d =
     (let (nerrors, lg) = internal_checkL1Compatibility env d;
          d1 = d\<lparr>mErrorLog := lg\<rparr>
      in if inConversion = False
         then
           (let (unit_errors, errors) = UnitConsistencyValidator_validate env d1
            in if unit_errors > 0
               then
                 (if scan_assign env 1 2 False errors
                  then (nerrors + 1,
                        d1\<lparr>mErrorLog :=
                             logError env StrictUnitsRequiredInL1 (mLevel d1) (mVersion d1) (mErrorLog d1)\<rparr>)
                  else (nerrors + 0, d1))
               else (nerrors + unit_errors, d1))
         else (nerrors + 0, d1))"

definition checkL2v1Compatibility ::
  "('m, 'p, 'v) collaborators \<Rightarrow> bool \<Rightarrow> ('m, 'p, 'v) SBMLDocument
     \<Rightarrow> 32 word \<times> ('m, 'p, 'v) SBMLDocument" where
  "checkL2v1Compatibility env inConversion d =
     (let (nerrors, lg) = internal_checkL2v1Compatibility env d;
          d1 = d\<lparr>mErrorLog := lg\<rparr>
      in if inConversion = False
         then
           (let (unit_errors, errors) = UnitConsistencyValidator_validate env d1
            in if unit_errors > 0
               then
                 (if scan_if env 2 1 False errors
                  then (nerrors + 1,
                        d1\<lparr>mErrorLog :=
                             logError env StrictUnitsRequiredInL2v1 (mLevel d1) (mVersion d1) (mErrorLog d1)\<rparr>)
                  else (nerrors + 0, d1))
               else (nerrors + unit_errors, d1))
         else (nerrors + 0, d1))"

definition checkL2v2Compatibility ::
  "('m, 'p, 'v) collaborators \<Rightarrow> bool \<Rightarrow> ('m, 'p, 'v) SBMLDocument
     \<Rightarrow> 32 word \<times> ('m, 'p, 'v) SBMLDocument" where
  "checkL2v2Compatibility env inConversion d =
     (let (nerrors, lg) = internal_checkL2v2Compatibility env d;
          d1 = d\<lparr>mErrorLog := lg\<rparr>
      in if inConversion = False
         then
           (let (unit_errors, errors) = UnitConsistencyValidator_validate env d1
            in if unit_errors > 0
               then
                 (if scan_assign env 1 2 False errors
                  then (nerrors + 1,
                        d1\<lparr>mErrorLog :=
                             logError env StrictUnitsRequiredInL2v2 (mLevel d1) (mVersion d1) (mErrorLog d1)\<rparr>)
                  else (nerrors + 0, d1))
               else (nerrors + unit_errors, d1))
         else (nerrors + 0, d1))"

definition checkL2v3Compatibility ::
  "('m, 'p, 'v) collaborators \<Rightarrow> bool \<Rightarrow> ('m, 'p, 'v) SBMLDocument
     \<Rightarrow> 32 word \<times> ('m, 'p, 'v) SBMLDocument" where
  "checkL2v3Compatibility env inConversion d =
     (let (nerrors, lg) = internal_checkL2v3Compatibility env d;
          d1 = d\<lparr>mErrorLog := lg\<rparr>
      in if inConversion = False
         then
           (let (unit_errors, errors) = UnitConsistencyValidator_validate env d1
            in if unit_errors > 0
               then
                 (if scan_assign env 1 2 False errors
                  then (nerrors + 1,
                        d1\<lparr>mErrorLog :=
                             logError env StrictUnitsRequiredInL2v3 (mLevel d1) (mVersion d1) (mErrorLog d1)\<rparr>)
                  else (nerrors + 0, d1))
               else (nerrors + unit_errors, d1))
         else (nerrors + 0, d1))"

subsection \<open>convert\<close>

datatype OperationReturnValues_t =
    LIBSBML_OPERATION_SUCCESS
  | LIBSBML_OPERATION_FAILED
  | LIBSBML_PKG_UNKNOWN_VERSION
  | LIBSBML_CONV_CONVERSION_NOT_AVAILABLE
  | LIBSBML_CONV_INVALID_SRC_DOCUMENT
  | LIBSBML_CONV_INVALID_TARGET_NAMESPACE

text \<open>
  The converter registry and the converters are parameters: \<open>getConverterFor props\<close>
  is the registry's answer (\<open>None\<close> for the null pointer) and \<open>converter_convert c props d\<close>
  is what the converter \<open>c\<close>, bound to the document and the properties, returns and
  the document it leaves.
\<close>

definition convert ::
  "('props \<Rightarrow> 'c option)
     \<Rightarrow> ('c \<Rightarrow> 'props \<Rightarrow> ('m, 'p, 'v) SBMLDocument \<Rightarrow> OperationReturnValues_t \<times> ('m, 'p, 'v) SBMLDocument)
     \<Rightarrow> 'props \<Rightarrow> ('m, 'p, 'v) SBMLDocument
     \<Rightarrow> OperationReturnValues_t \<times> ('m, 'p, 'v) SBMLDocument" where
  "convert getConverterFor converter_convert props d =
     (case getConverterFor props of
        None \<Rightarrow> (LIBSBML_CONV_CONVERSION_NOT_AVAILABLE, d)
      | Some converter \<Rightarrow> converter_convert converter props d)"

text \<open>
  \<open>setLevelAndVersion\<close> builds the conversion properties for the target revision
  (\<open>mkProps level version strict ignorePackages\<close>) and reports whether \<open>convert\<close>
  succeeded.
\<close>

definition setLevelAndVersion ::
  "('props \<Rightarrow> 'c option)
     \<Rightarrow> ('c \<Rightarrow> 'props \<Rightarrow> ('m, 'p, 'v) SBMLDocument \<Rightarrow> OperationReturnValues_t \<times> ('m, 'p, 'v) SBMLDocument)
     \<Rightarrow> (nat \<Rightarrow> nat \<Rightarrow> bool \<Rightarrow> bool \<Rightarrow> 'props)
     \<Rightarrow> nat \<Rightarrow> nat \<Rightarrow> bool \<Rightarrow> bool \<Rightarrow> ('m, 'p, 'v) SBMLDocument
     \<Rightarrow> bool \<times> ('m, 'p, 'v) SBMLDocument" where
  "setLevelAndVersion getConverterFor converter_convert mkProps level version strict ignorePackages d =
     (let (r, d') = convert getConverterFor converter_convert
                      (mkProps level version strict ignorePackages) d
      in (if r = LIBSBML_OPERATION_SUCCESS then True else False, d'))"

subsection \<open>getElementBySId and getElementByMetaId\<close>

text \<open>
  What the two searches can return: the document itself, its model, an element the
  model's own search found, or an element a plugin's search found.
\<close>

datatype 'e SBase_ref = ThisDocument | TheModel | ModelElement 'e | PluginElement 'e

text \<open>
  The model's accessors and searches and the plugins' searches are parameters
  (\<open>None\<close> for the null pointer).
\<close>

record ('m, 'p, 'e) tree_access =
  Model_getId :: "'m \<Rightarrow> string"
  Model_getMetaId :: "'m \<Rightarrow> string"
  Model_getElementBySId :: "'m \<Rightarrow> string \<Rightarrow> 'e option"
  Model_getElementByMetaId :: "'m \<Rightarrow> string \<Rightarrow> 'e option"
  getElementFromPluginsBySId :: "'p list \<Rightarrow> string \<Rightarrow> 'e option"
  getElementFromPluginsByMetaId :: "'p list \<Rightarrow> string \<Rightarrow> 'e option"

definition getElementBySId ::
  "('m, 'p, 'e) tree_access \<Rightarrow> ('m, 'p, 'v) SBMLDocument \<Rightarrow> string \<Rightarrow> 'e SBase_ref option" where
  "getElementBySId ta d sid =
     (if sid = [] then None
      else
        (let fromPlugins = map_option PluginElement (getElementFromPluginsBySId ta (mPlugins d) sid)
         in case mModel d of
              None \<Rightarrow> fromPlugins
            | Some m \<Rightarrow>
                (if Model_getId ta m = sid then Some TheModel
                 else case Model_getElementBySId ta m sid of
                        Some obj \<Rightarrow> Some (ModelElement obj)
                      | None \<Rightarrow> fromPlugins)))"

definition getElementByMetaId ::
  "('m, 'p, 'e) tree_access \<Rightarrow> ('m, 'p, 'v) SBMLDocument \<Rightarrow> string \<Rightarrow> 'e SBase_ref option" where
  "getElementByMetaId ta d metaid =
     (if metaid = [] then None
      else if mMetaId d = metaid then Some ThisDocument
      else
        (let fromPlugins = map_option PluginElement (getElementFromPluginsByMetaId ta (mPlugins d) metaid)
         in case mModel d of
              None \<Rightarrow> fromPlugins
            | Some m \<Rightarrow>
                (if Model_getMetaId ta m = metaid then Some TheModel
                 else case Model_getElementByMetaId ta m metaid of
                        Some obj \<Rightarrow> Some (ModelElement obj)
                      | None \<Rightarrow> fromPlugins)))"

subsection \<open>enablePackageInternal\<close>

text \<open>
  The two loops of \<open>enablePackageInternal\<close> look for the entry of a table whose URI
  and prefix are the given ones, and stop at it (\<open>break\<close>).
\<close>

definition find_entry :: "string \<Rightarrow> string \<Rightarrow> XMLAttributes \<Rightarrow> XMLAttr option" where
  "find_entry u p t = t (u, p)"

text \<open>
  \<open>SBase_enablePackageInternal\<close> (the base class: the document's own plugins) and
  \<open>Model_enablePackageInternal\<close> (the cascade into the model) are parameters; the two
  tables are private members of the document, out of their reach.
\<close>

definition enablePackageInternal ::
  "(string \<Rightarrow> string \<Rightarrow> bool \<Rightarrow> 'p list \<Rightarrow> 'p list) \<Rightarrow> (string \<Rightarrow> string \<Rightarrow> bool \<Rightarrow> 'm \<Rightarrow> 'm)
     \<Rightarrow> string \<Rightarrow> string \<Rightarrow> bool \<Rightarrow> ('m, 'p, 'v) SBMLDocument \<Rightarrow> ('m, 'p, 'v) SBMLDocument" where
  "enablePackageInternal SBase_enablePackageInternal Model_enablePackageInternal pkgURI pkgPrefix flag d =
     (let d1 = d\<lparr>mPlugins := SBase_enablePackageInternal pkgURI pkgPrefix flag (mPlugins d)\<rparr>;
          d2 =
            (if \<not> flag
             then
               (let d1' = d1\<lparr>mPkgUseDefaultNSMap := (mPkgUseDefaultNSMap d1)(pkgURI := None)\<rparr>;
                    pkg = mRequiredAttrOfUnknownPkg d1'
                in case find_entry pkgURI pkgPrefix pkg of
                     None \<Rightarrow> d1'
                   | Some a \<Rightarrow>
                       d1'\<lparr>mRequiredAttrOfUnknownDisabledPkg :=
                              XMLAttributes_add (attrName a) (attrValue a) pkgURI pkgPrefix
                                (mRequiredAttrOfUnknownDisabledPkg d1'),
                            mRequiredAttrOfUnknownPkg := XMLAttributes_remove pkgURI pkgPrefix pkg\<rparr>)
             else
               (let dis = mRequiredAttrOfUnknownDisabledPkg d1
                in case find_entry pkgURI pkgPrefix dis of
                     None \<Rightarrow> d1
                   | Some a \<Rightarrow>
                       d1\<lparr>mRequiredAttrOfUnknownPkg :=
                             XMLAttributes_add (attrName a) (attrValue a) pkgURI pkgPrefix
                               (mRequiredAttrOfUnknownPkg d1),
                           mRequiredAttrOfUnknownDisabledPkg := XMLAttributes_remove pkgURI pkgPrefix dis\<rparr>))
      in d2\<lparr>mModel := map_option (Model_enablePackageInternal pkgURI pkgPrefix flag) (mModel d2)\<rparr>)"

subsection \<open>Example documents\<close>

definition example_log :: SBMLErrorLog where
  "example_log = \<lparr>mErrors = [], mOverriddenSeverity = LIBSBML_OVERRIDE_WARNING\<rparr>"

definition example_doc :: "(unit, unit, unit) SBMLDocument" where
  "example_doc =
     \<lparr>mLevel = 3, mVersion = 1, mMetaId = ''meta_doc'', mModel = Some (), mPlugins = [],
      mValidators = [], mErrorLog = example_log, mApplicableValidators = UNIV,
      mRequiredAttrOfUnknownPkg =
        [(''http://www.sbml.org/sbml/level3/version1/aaa/version1'', ''aaa'')
           \<mapsto> \<lparr>attrName = ''required'', attrValue = ''true''\<rparr>,
         (''http://www.sbml.org/sbml/level3/version1/bbb/version1'', ''bbb'')
           \<mapsto> \<lparr>attrName = ''required'', attrValue = ''false''\<rparr>],
      mRequiredAttrOfUnknownDisabledPkg =
        [(''http://www.sbml.org/sbml/level3/version1/aaa/version1'', ''old'')
           \<mapsto> \<lparr>attrName = ''required'', attrValue = ''false''\<rparr>],
      mPkgUseDefaultNSMap = Map.empty\<rparr>"

text \<open>
  A severity table in which the unit failure 10501 is an error at Level 2 and a
  warning at Level 1, and the collaborators of a document whose unit validator
  reports that one failure.
\<close>

definition example_ctor :: "SBMLErrorCode_t \<Rightarrow> nat \<Rightarrow> nat \<Rightarrow> SBMLError" where
  "example_ctor code level version =
     \<lparr>getErrorId = code,
      getSeverity = (if code = ErrorId 10501 \<and> level = 1 then LIBSBML_SEV_WARNING else LIBSBML_SEV_ERROR)\<rparr>"

definition example_env :: "(unit, unit, unit) collaborators" where
  "example_env =
     \<lparr>internal_checkConsistency = (\<lambda>d. (0, mErrorLog d)),
      internal_checkL1Compatibility = (\<lambda>d. (0, mErrorLog d)),
      internal_checkL2v1Compatibility = (\<lambda>d. (0, mErrorLog d)),
      internal_checkL2v2Compatibility = (\<lambda>d. (0, mErrorLog d)),
      internal_checkL2v3Compatibility = (\<lambda>d. (0, mErrorLog d)),
      plugin_checkConsistency = (\<lambda>p d. (0, mErrorLog d)),
      validator_validate = (\<lambda>v d. (0, [])),
      UnitConsistencyValidator_validate =
        (\<lambda>d. (1, [\<lparr>getErrorId = ErrorId 10501, getSeverity = LIBSBML_SEV_WARNING\<rparr>])),
      StrictUnitConsistencyValidator_validate =
        (\<lambda>d. (1, [\<lparr>getErrorId = ErrorId 10501, getSeverity = LIBSBML_SEV_WARNING\<rparr>])),
      SBMLError_ctor = example_ctor\<rparr>"

definition example_tree :: "(unit, unit, nat) tree_access" where
  "example_tree =
     \<lparr>Model_getId = (\<lambda>m. []),
      Model_getMetaId = (\<lambda>m. []),
      Model_getElementBySId = (\<lambda>m s. Some 7),
      Model_getElementByMetaId = (\<lambda>m s. Some 7),
      getElementFromPluginsBySId = (\<lambda>ps s. None),
      getElementFromPluginsByMetaId = (\<lambda>ps s. None)\<rparr>"

subsection \<open>The first phase of the strict check, stated over the collaborators\<close>

text \<open>
  What the spec says precedes the stricter pass, written directly over the
  collaborators: starting from the count and the log the internal validator
  returns, each document plugin in turn adds its count and leaves its log, and each
  attached validator in turn adds its count and has its failures added to the log
  (none are added when it reports none).
\<close>

definition plugin_pass ::
  "('m, 'p, 'v) collaborators \<Rightarrow> 32 word \<times> ('m, 'p, 'v) SBMLDocument \<Rightarrow> 'p
     \<Rightarrow> 32 word \<times> ('m, 'p, 'v) SBMLDocument" where
  "plugin_pass env nd p =
     (fst nd + fst (plugin_checkConsistency env p (snd nd)),
      (snd nd)\<lparr>mErrorLog := snd (plugin_checkConsistency env p (snd nd))\<rparr>)"

definition validator_pass ::
  "('m, 'p, 'v) collaborators \<Rightarrow> 32 word \<times> ('m, 'p, 'v) SBMLDocument \<Rightarrow> 'v
     \<Rightarrow> 32 word \<times> ('m, 'p, 'v) SBMLDocument" where
  "validator_pass env nd v =
     (fst nd + fst (validator_validate env v (snd nd)),
      if fst (validator_validate env v (snd nd)) = 0 then snd nd
      else (snd nd)\<lparr>mErrorLog :=
             add_list (snd (validator_validate env v (snd nd))) (mErrorLog (snd nd))\<rparr>)"

text \<open>
  The first phase of \<open>checkConsistencyWithStrictUnits\<close>: the override disabled, the
  units category switched off, then the internal validator, the plugins and the
  attached validators of the document.
\<close>

definition nonStrictChecks ::
  "('m, 'p, 'v) collaborators \<Rightarrow> ('m, 'p, 'v) SBMLDocument \<Rightarrow> 32 word \<times> ('m, 'p, 'v) SBMLDocument" where
  "nonStrictChecks env d =
     (let d0 = setConsistencyChecks LIBSBML_CAT_UNITS_CONSISTENCY False
                 (withOverride LIBSBML_OVERRIDE_DISABLED d);
          start = (fst (internal_checkConsistency env d0),
                   d0\<lparr>mErrorLog := snd (internal_checkConsistency env d0)\<rparr>)
      in foldl (validator_pass env) (foldl (plugin_pass env) start (mPlugins d)) (mValidators d))"

text \<open>
  A document with one plugin and one attached validator, and collaborators that
  find something: the internal validator logs one failure of the given severity,
  the plugin logs a warning and an informational failure, the attached validator
  reports a warning, and the strict unit validator reports the unit failure 10501.
\<close>

definition example_doc_checked :: "(unit, unit, unit) SBMLDocument" where
  "example_doc_checked = example_doc\<lparr>mPlugins := [()], mValidators := [()]\<rparr>"

definition example_checking_env :: "XMLErrorSeverity_t \<Rightarrow> (unit, unit, unit) collaborators" where
  "example_checking_env sev =
     example_env
       \<lparr>internal_checkConsistency :=
          (\<lambda>d. (1, add \<lparr>getErrorId = ErrorId 20101, getSeverity = sev\<rparr> (mErrorLog d))),
        plugin_checkConsistency :=
          (\<lambda>p d. (2, add_list [\<lparr>getErrorId = ErrorId 1020101, getSeverity = LIBSBML_SEV_WARNING\<rparr>,
                                \<lparr>getErrorId = ErrorId 1020102, getSeverity = LIBSBML_SEV_INFO\<rparr>]
                         (mErrorLog d))),
        validator_validate :=
          (\<lambda>v d. (1, [\<lparr>getErrorId = ErrorId 99999, getSeverity = LIBSBML_SEV_WARNING\<rparr>]))\<rparr>"

text \<open>The recorded entry of the first unknown package of \<open>example_doc\<close>, and the identity for the cascades.\<close>

definition example_entry :: XMLAttr where
  "example_entry = \<lparr>attrName = ''required'', attrValue = ''true''\<rparr>"

definition no_cascade :: "string \<Rightarrow> string \<Rightarrow> bool \<Rightarrow> 'a \<Rightarrow> 'a" where
  "no_cascade pkgURI pkgPrefix flag x = x"

section \<open>The duplicate-identifier constraint (UniqueSpatialIds)\<close>

text \<open>
  What the constraint reads of an object: its element name, whether its id is set,
  the id, and its source line (an unsigned integer; 0 when unknown).
\<close>

record SBase_obj =
  getElementName :: string
  isSetId :: bool
  getId :: string
  getLine :: "32 word"

text \<open>
  The part of the model that \<open>doCheck\<close> walks.  A pointer that may be null is an
  \<open>option\<close>: the model's and a compartment's \<open>spatial\<close> plugin (\<open>getPlugin("spatial")\<close>),
  the geometry (\<open>isSetGeometry\<close> holds when there is one), the two boundaries of a
  coordinate component, a compartment's mapping (\<open>isSetCompartmentMapping\<close>).
\<close>

record CoordinateComponent =
  cc_object :: SBase_obj
  getBoundaryMax :: "SBase_obj option"
  getBoundaryMin :: "SBase_obj option"

record Geometry =
  geometry_object :: SBase_obj
  getAdjacentDomains :: "SBase_obj list"
  getCoordinateComponents :: "CoordinateComponent list"
  getDomainTypes :: "SBase_obj list"
  getDomains :: "SBase_obj list"
  getGeometryDefinitions :: "SBase_obj list"
  getSampledFields :: "SBase_obj list"

record SpatialModelPlugin =
  getGeometry :: "Geometry option"

record SpatialCompartmentPlugin =
  getCompartmentMapping :: "SBase_obj option"

record Compartment =
  compartment_spatial_plugin :: "SpatialCompartmentPlugin option"

record Model =
  model_spatial_plugin :: "SpatialModelPlugin option"
  getCompartments :: "Compartment list"

text \<open>
  A logged failure: the object it is logged against and the message.  The
  constraint's state: the scratch map from id to the object first seen with it, and
  the failures logged so far.
\<close>

record failure =
  failObject :: SBase_obj
  failMessage :: string

record UniqueSpatialIds =
  mIdMap :: "string \<rightharpoonup> SBase_obj"
  mFailures :: "failure list"

text \<open>
  Modelled from the spec: \<open>logFailure\<close>, inherited from the constraint base class
  (VConstraint).  A constraint has "accumulated failures", each with a message and
  a source location: \<open>logFailure\<close> appends one, for the given object and message.
\<close>

definition logFailure :: "SBase_obj \<Rightarrow> string \<Rightarrow> UniqueSpatialIds \<Rightarrow> UniqueSpatialIds" where
  "logFailure object msg s = s\<lparr>mFailures := mFailures s @ [\<lparr>failObject = object, failMessage = msg\<rparr>]\<rparr>"

text \<open>Decimal digits of an unsigned number, as the output stream prints it.\<close>

fun string_of_nat :: "nat \<Rightarrow> string" where
  "string_of_nat n =
     (if n < 10 then [''0123456789'' ! n]
      else string_of_nat (n div 10) @ [''0123456789'' ! (n mod 10)])"

declare string_of_nat.simps [simp del]

definition reset :: "UniqueSpatialIds \<Rightarrow> UniqueSpatialIds" where
  "reset s = s\<lparr>mIdMap := Map.empty\<rparr>"

definition getMessage :: "string \<Rightarrow> SBase_obj \<Rightarrow> UniqueSpatialIds \<Rightarrow> string" where
  "getMessage ident object s =
     (case mIdMap s ident of
        None \<Rightarrow>
          ''Internal (but non-fatal) Validator error in ''
          @ ''UniqueSpatialIds::getMessage().  The SBML object with duplicate id was ''
          @ ''not found when it came time to construct a descriptive error message.''
      | Some previous \<Rightarrow>
          ''  The <'' @ getElementName object
          @ ''> id '' @ [CHR 0x27] @ ident @ [CHR 0x27] @ '' conflicts with the previously defined <''
          @ getElementName previous
          @ ''> id '' @ [CHR 0x27] @ ident @ [CHR 0x27]
          @ (if getLine previous \<noteq> 0
             then '' at line '' @ string_of_nat (unat (getLine previous)) else [])
          @ ''.'')"

definition logIdConflict :: "string \<Rightarrow> SBase_obj \<Rightarrow> UniqueSpatialIds \<Rightarrow> UniqueSpatialIds" where
  "logIdConflict ident object s = logFailure object (getMessage ident object s) s"

text \<open>
  \<open>mIdMap.insert(make_pair(id, &object)).second\<close> is false exactly when the map
  already has the key, and then the map is left as it is.
\<close>

definition doCheckId :: "SBase_obj \<Rightarrow> UniqueSpatialIds \<Rightarrow> UniqueSpatialIds" where
  "doCheckId object s =
     (if isSetId object
      then (case mIdMap s (getId object) of
              None \<Rightarrow> s\<lparr>mIdMap := (mIdMap s)(getId object \<mapsto> object)\<rparr>
            | Some previous \<Rightarrow> logIdConflict (getId object) object s)
      else s)"

text \<open>A loop \<open>for (n = 0; n < size; n++) doCheckId(*list(n))\<close>.\<close>

fun doCheckIds :: "SBase_obj list \<Rightarrow> UniqueSpatialIds \<Rightarrow> UniqueSpatialIds" where
  "doCheckIds [] s = s"
| "doCheckIds (object # rest) s = doCheckIds rest (doCheckId object s)"

text \<open>
  The loop over the coordinate components dereferences both boundaries; a null
  boundary ends the run (\<open>None\<close>).
\<close>

fun doCheck_coordinateComponents :: "CoordinateComponent list \<Rightarrow> UniqueSpatialIds \<Rightarrow> UniqueSpatialIds option" where
  "doCheck_coordinateComponents [] s = Some s"
| "doCheck_coordinateComponents (cc # rest) s =
     (let s1 = doCheckId (cc_object cc) s
      in case getBoundaryMax cc of
           None \<Rightarrow> None
         | Some bmax \<Rightarrow>
             (let s2 = doCheckId bmax s1
              in case getBoundaryMin cc of
                   None \<Rightarrow> None
                 | Some bmin \<Rightarrow> doCheck_coordinateComponents rest (doCheckId bmin s2)))"

text \<open>The loop over the compartments dereferences each compartment's \<open>spatial\<close> plugin.\<close>

fun doCheck_compartments :: "Compartment list \<Rightarrow> UniqueSpatialIds \<Rightarrow> UniqueSpatialIds option" where
  "doCheck_compartments [] s = Some s"
| "doCheck_compartments (c # rest) s =
     (case compartment_spatial_plugin c of
        None \<Rightarrow> None
      | Some compPlug \<Rightarrow>
          (case getCompartmentMapping compPlug of
             None \<Rightarrow> doCheck_compartments rest s
           | Some cm \<Rightarrow> doCheck_compartments rest (doCheckId cm s)))"

definition doCheck_geometry :: "Geometry \<Rightarrow> UniqueSpatialIds \<Rightarrow> UniqueSpatialIds option" where
  "doCheck_geometry g s =
     (let s1 = doCheckId (geometry_object g) s;
          s2 = doCheckIds (getAdjacentDomains g) s1
      in case doCheck_coordinateComponents (getCoordinateComponents g) s2 of
           None \<Rightarrow> None
         | Some s3 \<Rightarrow>
             (let s4 = doCheckIds (getDomainTypes g) s3;
                  s5 = doCheckIds (getDomains g) s4;
                  s6 = doCheckIds (getGeometryDefinitions g) s5
              in Some (doCheckIds (getSampledFields g) s6)))"

definition doCheck :: "Model \<Rightarrow> UniqueSpatialIds \<Rightarrow> UniqueSpatialIds option" where
  "doCheck m s =
     (case model_spatial_plugin m of
        None \<Rightarrow> None
      | Some modelPlug \<Rightarrow>
          (case (case getGeometry modelPlug of
                   None \<Rightarrow> Some s
                 | Some g \<Rightarrow> doCheck_geometry g s) of
             None \<Rightarrow> None
           | Some s1 \<Rightarrow>
               (case doCheck_compartments (getCompartments m) s1 of
                  None \<Rightarrow> None
                | Some s2 \<Rightarrow> Some (reset s2))))"

subsection \<open>The sequence of objects a run checks, and what the spec says is logged\<close>

text \<open>
  The objects \<open>doCheck\<close> passes to \<open>doCheckId\<close>, in order; \<open>None\<close> when the walk meets a
  null pointer.
\<close>

fun objects_of_coordinateComponents :: "CoordinateComponent list \<Rightarrow> SBase_obj list option" where
  "objects_of_coordinateComponents [] = Some []"
| "objects_of_coordinateComponents (cc # rest) =
     (case (getBoundaryMax cc, getBoundaryMin cc, objects_of_coordinateComponents rest) of
        (Some bmax, Some bmin, Some objs) \<Rightarrow> Some (cc_object cc # bmax # bmin # objs)
      | _ \<Rightarrow> None)"

fun objects_of_compartments :: "Compartment list \<Rightarrow> SBase_obj list option" where
  "objects_of_compartments [] = Some []"
| "objects_of_compartments (c # rest) =
     (case (compartment_spatial_plugin c, objects_of_compartments rest) of
        (Some compPlug, Some objs) \<Rightarrow>
          Some ((case getCompartmentMapping compPlug of None \<Rightarrow> [] | Some cm \<Rightarrow> [cm]) @ objs)
      | _ \<Rightarrow> None)"

definition objects_of_geometry :: "Geometry \<Rightarrow> SBase_obj list option" where
  "objects_of_geometry g =
     (case objects_of_coordinateComponents (getCoordinateComponents g) of
        None \<Rightarrow> None
      | Some ccs \<Rightarrow>
          Some (geometry_object g # getAdjacentDomains g @ ccs @ getDomainTypes g @ getDomains g
                @ getGeometryDefinitions g @ getSampledFields g))"

definition checked_objects :: "Model \<Rightarrow> SBase_obj list option" where
  "checked_objects m =
     (case model_spatial_plugin m of
        None \<Rightarrow> None
      | Some modelPlug \<Rightarrow>
          (case ((case getGeometry modelPlug of None \<Rightarrow> Some [] | Some g \<Rightarrow> objects_of_geometry g),
                 objects_of_compartments (getCompartments m)) of
             (Some gs, Some cs) \<Rightarrow> Some (gs @ cs)
           | _ \<Rightarrow> None))"

text \<open>
  The conflict message as the spec words it: both element kinds, the conflicting
  id, and the line of the previously seen object when that line is known.
\<close>

definition conflict_message :: "SBase_obj \<Rightarrow> SBase_obj \<Rightarrow> string" where
  "conflict_message object previous =
     ''  The <'' @ getElementName object @ ''> id '' @ [CHR 0x27] @ getId object @ [CHR 0x27]
     @ '' conflicts with the previously defined <'' @ getElementName previous
     @ ''> id '' @ [CHR 0x27] @ getId object @ [CHR 0x27]
     @ (if getLine previous = 0 then [] else '' at line '' @ string_of_nat (unat (getLine previous)))
     @ ''.''"

text \<open>
  What the spec says the \<open>i\<close>-th object of a sequence contributes: nothing when its
  id is not set or when no earlier object of the sequence has the same id set; one
  conflict failure against the first such earlier object otherwise.
\<close>

definition conflict_at :: "SBase_obj list \<Rightarrow> nat \<Rightarrow> failure list" where
  "conflict_at objs i =
     (if isSetId (objs ! i)
      then (case find (\<lambda>x. isSetId x \<and> getId x = getId (objs ! i)) (take i objs) of
              None \<Rightarrow> []
            | Some previous \<Rightarrow>
                [\<lparr>failObject = objs ! i, failMessage = conflict_message (objs ! i) previous\<rparr>])
      else [])"

definition example_objects :: "SBase_obj list" where
  "example_objects =
     [\<lparr>getElementName = ''domainType'', isSetId = True, getId = ''d1'', getLine = 12\<rparr>,
      \<lparr>getElementName = ''sampledField'', isSetId = False, getId = [], getLine = 13\<rparr>,
      \<lparr>getElementName = ''domain'', isSetId = True, getId = ''d1'', getLine = 20\<rparr>]"

definition example_model :: Model where
  "example_model =
     \<lparr>model_spatial_plugin = Some \<lparr>getGeometry = Some
        \<lparr>geometry_object = \<lparr>getElementName = ''geometry'', isSetId = True, getId = ''g'', getLine = 0\<rparr>,
         getAdjacentDomains = [],
         getCoordinateComponents = [],
         getDomainTypes = [\<lparr>getElementName = ''domainType'', isSetId = True, getId = ''g'', getLine = 12\<rparr>],
         getDomains = [],
         getGeometryDefinitions = [],
         getSampledFields = []\<rparr>\<rparr>,
      getCompartments = []\<rparr>"

definition empty_constraint :: UniqueSpatialIds where
  "empty_constraint = \<lparr>mIdMap = Map.empty, mFailures = []\<rparr>"

text \<open>The scratch map that holds, for each id, the first object of a sequence with that id set.\<close>

definition idmap_of :: "SBase_obj list \<Rightarrow> (string \<rightharpoonup> SBase_obj)" where
  "idmap_of seen = (\<lambda>k. find (\<lambda>x. isSetId x \<and> getId x = k) seen)"

definition example_model_objects :: "SBase_obj list" where
  "example_model_objects =
     [\<lparr>getElementName = ''geometry'', isSetId = True, getId = ''g'', getLine = 0\<rparr>,
      \<lparr>getElementName = ''domainType'', isSetId = True, getId = ''g'', getLine = 12\<rparr>]"


section \<open>The serializer (SBMLFormatter)\<close>

text \<open>
  Modelled from the spec: the serializer (SBMLFormatter), which the unit tests of
  TestSBMLFormatter.cpp exercise.  The model follows the rendering rules of the
  spec, section 4.5, for the element kinds of the two scenarios: an attribute is
  written only if it is set and differs from its default (exponent 1, scale 0,
  stoichiometry 1, denominator 1, reversible true, fast false); element and
  attribute names depend on the revision (\<open>specie\<close> for \<open>species\<close> in Level 1
  Version 1); the children of a list are written inside a wrapper element when there
  is at least one, and the wrapper is omitted when there is none; the output starts
  with the fixed XML declaration.  The layout (two spaces per level, one element per
  line, an element without children closed with \<open>/>\<close>) is the one the expected strings
  of the tests show.  The objects of the scenarios carry no notes and no annotation,
  and these are not modelled.
\<close>

record revision =
  rev_level :: nat
  rev_version :: nat

text \<open>The revision the formatter writes when none is selected: Level 1 Version 2.\<close>

definition default_revision :: revision where
  "default_revision = \<lparr>rev_level = 1, rev_version = 2\<rparr>"

datatype xml = Element string "(string \<times> string) list" "xml list"

definition string_of_int :: "int \<Rightarrow> string" where
  "string_of_int i = (if i < 0 then ''-'' @ string_of_nat (nat (- i)) else string_of_nat (nat i))"

definition render_attribute :: \<open>string \<times> string \<Rightarrow> string\<close> where
  \<open>render_attribute a = '' '' @ fst a @ ''="'' @ snd a @ ''"''\<close>

fun render :: "string \<Rightarrow> xml \<Rightarrow> string" where
  "render indent (Element name attrs children) =
     (if children = []
      then indent @ ''<'' @ name @ concat (map render_attribute attrs) @ ''/>\<newline>''
      else indent @ ''<'' @ name @ concat (map render_attribute attrs) @ ''>\<newline>''
           @ concat (map (render (indent @ ''  '')) children)
           @ indent @ ''</'' @ name @ ''>\<newline>'')"

definition XML_HEADER :: string where
  \<open>XML_HEADER = ''<?xml version="1.0" encoding="UTF-8"?>\<newline>''\<close>

definition write_xml :: "xml \<Rightarrow> string" where
  "write_xml x = XML_HEADER @ render [] x"

text \<open>A list of children: nothing when empty, one wrapper element otherwise.\<close>

definition listOf :: "string \<Rightarrow> xml list \<Rightarrow> xml list" where
  "listOf name children = (if children = [] then [] else [Element name [] children])"

text \<open>An attribute that is written only when it differs from its default.\<close>

definition unless_default :: "string \<Rightarrow> 'a \<Rightarrow> 'a \<Rightarrow> ('a \<Rightarrow> string) \<Rightarrow> (string \<times> string) list" where
  "unless_default name dflt v shows = (if v = dflt then [] else [(name, shows v)])"

text \<open>An attribute that is written only when it is set.\<close>

definition if_set :: "string \<Rightarrow> string option \<Rightarrow> (string \<times> string) list" where
  "if_set name v = (case v of None \<Rightarrow> [] | Some s \<Rightarrow> [(name, s)])"

datatype UnitKind_t = UNIT_KIND_KILOGRAM | UNIT_KIND_LITER | UNIT_KIND_MOLE | UNIT_KIND_SECOND

fun UnitKind_toString :: "UnitKind_t \<Rightarrow> string" where
  "UnitKind_toString UNIT_KIND_KILOGRAM = ''kilogram''"
| "UnitKind_toString UNIT_KIND_LITER = ''liter''"
| "UnitKind_toString UNIT_KIND_MOLE = ''mole''"
| "UnitKind_toString UNIT_KIND_SECOND = ''second''"

record Unit =
  unit_kind :: UnitKind_t
  unit_exponent :: int
  unit_scale :: int

record UnitDefinition =
  ud_name :: "string option"
  ud_units :: "Unit list"

record SpeciesReference =
  sr_species :: "string option"
  sr_stoichiometry :: int
  sr_denominator :: int

record KineticLaw =
  kl_formula :: "string option"
  kl_timeUnits :: "string option"
  kl_substanceUnits :: "string option"

record Reaction =
  r_name :: "string option"
  r_reversible :: bool
  r_fast :: bool
  r_reactants :: "SpeciesReference list"
  r_products :: "SpeciesReference list"
  r_kineticLaw :: "KineticLaw option"

definition string_of_bool :: "bool \<Rightarrow> string" where
  "string_of_bool b = (if b then ''true'' else ''false'')"

definition Unit_to_xml :: "revision \<Rightarrow> Unit \<Rightarrow> xml" where
  "Unit_to_xml rv u =
     Element ''unit''
       ([(''kind'', UnitKind_toString (unit_kind u))]
        @ unless_default ''exponent'' 1 (unit_exponent u) string_of_int
        @ unless_default ''scale'' 0 (unit_scale u) string_of_int)
       []"

definition UnitDefinition_to_xml :: "revision \<Rightarrow> UnitDefinition \<Rightarrow> xml" where
  "UnitDefinition_to_xml rv ud =
     Element ''unitDefinition'' (if_set ''name'' (ud_name ud))
       (listOf ''listOfUnits'' (map (Unit_to_xml rv) (ud_units ud)))"

text \<open>Level 1 Version 1 spells \<open>species\<close> as \<open>specie\<close>.\<close>

definition species_word :: "revision \<Rightarrow> string" where
  "species_word rv = (if rev_level rv = 1 \<and> rev_version rv = 1 then ''specie'' else ''species'')"

definition SpeciesReference_to_xml :: "revision \<Rightarrow> SpeciesReference \<Rightarrow> xml" where
  "SpeciesReference_to_xml rv sr =
     Element (species_word rv @ ''Reference'')
       (if_set (species_word rv) (sr_species sr)
        @ unless_default ''stoichiometry'' 1 (sr_stoichiometry sr) string_of_int
        @ unless_default ''denominator'' 1 (sr_denominator sr) string_of_int)
       []"

definition KineticLaw_to_xml :: "revision \<Rightarrow> KineticLaw \<Rightarrow> xml" where
  "KineticLaw_to_xml rv kl =
     Element ''kineticLaw''
       (if_set ''formula'' (kl_formula kl)
        @ if_set ''timeUnits'' (kl_timeUnits kl)
        @ if_set ''substanceUnits'' (kl_substanceUnits kl))
       []"

definition Reaction_to_xml :: "revision \<Rightarrow> Reaction \<Rightarrow> xml" where
  "Reaction_to_xml rv r =
     Element ''reaction''
       (if_set ''name'' (r_name r)
        @ unless_default ''reversible'' True (r_reversible r) string_of_bool
        @ unless_default ''fast'' False (r_fast r) string_of_bool)
       (listOf ''listOfReactants'' (map (SpeciesReference_to_xml rv) (r_reactants r))
        @ listOf ''listOfProducts'' (map (SpeciesReference_to_xml rv) (r_products r))
        @ (case r_kineticLaw r of None \<Rightarrow> [] | Some kl \<Rightarrow> [KineticLaw_to_xml rv kl]))"

text \<open>The two scenarios, built as the tests build them.\<close>

definition Unit_createWith :: "UnitKind_t \<Rightarrow> int \<Rightarrow> int \<Rightarrow> Unit" where
  "Unit_createWith k e s = \<lparr>unit_kind = k, unit_exponent = e, unit_scale = s\<rparr>"

definition mmls :: UnitDefinition where
  "mmls =
     \<lparr>ud_name = Some ''mmls'',
      ud_units = [Unit_createWith UNIT_KIND_MOLE 1 (- 3),
                  Unit_createWith UNIT_KIND_LITER (- 1) 0,
                  Unit_createWith UNIT_KIND_SECOND (- 1) 0]\<rparr>"

definition SpeciesReference_createWith :: "string \<Rightarrow> int \<Rightarrow> int \<Rightarrow> SpeciesReference" where
  "SpeciesReference_createWith s st d = \<lparr>sr_species = Some s, sr_stoichiometry = st, sr_denominator = d\<rparr>"

definition v1 :: Reaction where
  "v1 =
     \<lparr>r_name = Some ''v1'', r_reversible = True, r_fast = False,
      r_reactants = [SpeciesReference_createWith ''x0'' 1 1],
      r_products = [SpeciesReference_createWith ''s1'' 1 1],
      r_kineticLaw = Some \<lparr>kl_formula = Some ''(vm * s1)/(km + s1)'',
                            kl_timeUnits = None, kl_substanceUnits = None\<rparr>\<rparr>"

section \<open>Properties of the document\<close>

subsection \<open>Severity override\<close>

lemma withOverride_log [simp]:
  "mErrorLog (withOverride ov d) = setSeverityOverride ov (mErrorLog d)"
  by (simp add: withOverride_def)

lemma getSeverityOverride_set [simp]:
  "getSeverityOverride (setSeverityOverride ov lg) = ov"
  by (simp add: getSeverityOverride_def setSeverityOverride_def)

lemma withOverride_idem [simp]:
  "withOverride a (withOverride b d) = withOverride a d"
  by (simp add: withOverride_def setSeverityOverride_def)


subsection \<open>The strict unit check is gated by the serious errors\<close>

text \<open>The first phase the code runs is the one stated over the collaborators.\<close>

lemma plugins_checkConsistency_foldl:
  "plugins_checkConsistency env ps nd = foldl (plugin_pass env) nd ps"
  by (induction env ps nd rule: plugins_checkConsistency.induct)
     (simp_all add: plugin_pass_def split: prod.splits)

lemma validators_validate_foldl:
  "validators_validate env vs nd = foldl (validator_pass env) nd vs"
  by (induction env vs nd rule: validators_validate.induct)
     (auto simp: validator_pass_def word_gt_0 split: prod.splits)

lemma plugin_pass_fields:
  "mValidators (snd (foldl (plugin_pass env) nd ps)) = mValidators (snd nd)"
  by (induction ps arbitrary: nd) (simp_all add: plugin_pass_def)

lemma run_checks_collaborators:
  "run_checks env d =
     foldl (validator_pass env)
       (foldl (plugin_pass env)
          (fst (internal_checkConsistency env d), d\<lparr>mErrorLog := snd (internal_checkConsistency env d)\<rparr>)
          (mPlugins d))
       (mValidators d)"
  by (simp add: run_checks_def plugins_checkConsistency_foldl validators_validate_foldl
        plugin_pass_fields split: prod.splits)

lemma pass_strict_irrelevant [simp]:
  "plugin_pass (env\<lparr>StrictUnitConsistencyValidator_validate := sv\<rparr>) = plugin_pass env"
  "validator_pass (env\<lparr>StrictUnitConsistencyValidator_validate := sv\<rparr>) = validator_pass env"
  by (simp_all add: plugin_pass_def validator_pass_def fun_eq_iff)

lemma nonStrictChecks_run:
  "run_checks (env\<lparr>StrictUnitConsistencyValidator_validate := sv\<rparr>)
     (setConsistencyChecks LIBSBML_CAT_UNITS_CONSISTENCY False (withOverride LIBSBML_OVERRIDE_DISABLED d))
   = nonStrictChecks env d"
  by (simp add: run_checks_collaborators nonStrictChecks_def Let_def setConsistencyChecks_def
        withOverride_def)

lemma add_list_override_error:
  "mOverriddenSeverity lg = LIBSBML_OVERRIDE_ERROR \<Longrightarrow>
     add_list fs lg = lg\<lparr>mErrors := mErrors lg @ map (\<lambda>e. e\<lparr>getSeverity := LIBSBML_SEV_ERROR\<rparr>) fs\<rparr>"
  by (induction fs arbitrary: lg) (simp_all add: add_def applyOverride_def)

text \<open>
  C4.  \<open>checkConsistencyWithStrictUnits\<close> first runs the checks other than the strict
  unit check: the internal validator, then every plugin, then every attached
  validator, with the override disabled and the units category off
  (\<open>nonStrictChecks\<close>, stated over the collaborators).  If the error log then holds a
  failure of severity fatal or error, the strict unit validator is not run, whatever
  validator \<open>sv\<close> it is: the count found so far and the log as it stands are
  returned, the prior override put back.  If it holds none, the strict unit
  validator is run on the document with the override set to error, its count is
  added to the result, and its failures are appended to the log with severity
  error; nothing else of the document changes.
\<close>

theorem strict_units_gate:
  "(getNumErrors LIBSBML_SEV_FATAL (snd (nonStrictChecks env d)) > 0
      \<or> getNumErrors LIBSBML_SEV_ERROR (snd (nonStrictChecks env d)) > 0 \<longrightarrow>
       checkConsistencyWithStrictUnits (env\<lparr>StrictUnitConsistencyValidator_validate := sv\<rparr>) d
         = (fst (nonStrictChecks env d),
            withOverride (getSeverityOverride (mErrorLog d)) (snd (nonStrictChecks env d))))
   \<and> (getNumErrors LIBSBML_SEV_FATAL (snd (nonStrictChecks env d)) = 0
      \<and> getNumErrors LIBSBML_SEV_ERROR (snd (nonStrictChecks env d)) = 0 \<longrightarrow>
       (let d1 = snd (nonStrictChecks env d);
            (nerrors, failures) = sv (withOverride LIBSBML_OVERRIDE_ERROR d1)
        in checkConsistencyWithStrictUnits (env\<lparr>StrictUnitConsistencyValidator_validate := sv\<rparr>) d
             = (fst (nonStrictChecks env d) + nerrors,
                d1\<lparr>mErrorLog :=
                     \<lparr>mErrors = mErrors (mErrorLog d1)
                        @ (if nerrors > 0
                           then map (\<lambda>e. e\<lparr>getSeverity := LIBSBML_SEV_ERROR\<rparr>) failures else []),
                      mOverriddenSeverity = getSeverityOverride (mErrorLog d)\<rparr>\<rparr>)))"
proof (cases "nonStrictChecks env d")
  case (Pair n d1)
  then have run: "run_checks (env\<lparr>StrictUnitConsistencyValidator_validate := sv\<rparr>)
        (setConsistencyChecks LIBSBML_CAT_UNITS_CONSISTENCY False
           (withOverride LIBSBML_OVERRIDE_DISABLED d)) = (n, d1)"
    by (simp add: nonStrictChecks_run)
  show ?thesis
    unfolding checkConsistencyWithStrictUnits_def Let_def run Pair
    by (cases "sv (withOverride LIBSBML_OVERRIDE_ERROR d1)")
       (auto simp: add_list_override_error setSeverityOverride_def withOverride_def
          getSeverityOverride_def)
qed

lemma nonStrictChecks_example:
  "nonStrictChecks (example_checking_env sev) example_doc_checked =
     (4, (setConsistencyChecks LIBSBML_CAT_UNITS_CONSISTENCY False example_doc_checked)
           \<lparr>mErrorLog :=
              \<lparr>mErrors =
                 [\<lparr>getErrorId = ErrorId 20101, getSeverity = sev\<rparr>,
                  \<lparr>getErrorId = ErrorId 1020101, getSeverity = LIBSBML_SEV_WARNING\<rparr>,
                  \<lparr>getErrorId = ErrorId 1020102, getSeverity = LIBSBML_SEV_INFO\<rparr>,
                  \<lparr>getErrorId = ErrorId 99999, getSeverity = LIBSBML_SEV_WARNING\<rparr>],
               mOverriddenSeverity = LIBSBML_OVERRIDE_DISABLED\<rparr>\<rparr>)"
  by (simp add: nonStrictChecks_def example_checking_env_def example_env_def example_doc_checked_def
        example_doc_def example_log_def plugin_pass_def validator_pass_def add_def applyOverride_def
        setConsistencyChecks_def withOverride_def setSeverityOverride_def Let_def)

theorem strict_units_gate_witness:
  "getNumErrors LIBSBML_SEV_ERROR
       (snd (nonStrictChecks (example_checking_env LIBSBML_SEV_ERROR) example_doc_checked)) > 0
   \<and> fst (checkConsistencyWithStrictUnits (example_checking_env LIBSBML_SEV_ERROR) example_doc_checked) = 4
   \<and> mErrorLog (snd (checkConsistencyWithStrictUnits (example_checking_env LIBSBML_SEV_ERROR)
                         example_doc_checked))
       = \<lparr>mErrors =
            [\<lparr>getErrorId = ErrorId 20101, getSeverity = LIBSBML_SEV_ERROR\<rparr>,
             \<lparr>getErrorId = ErrorId 1020101, getSeverity = LIBSBML_SEV_WARNING\<rparr>,
             \<lparr>getErrorId = ErrorId 1020102, getSeverity = LIBSBML_SEV_INFO\<rparr>,
             \<lparr>getErrorId = ErrorId 99999, getSeverity = LIBSBML_SEV_WARNING\<rparr>],
          mOverriddenSeverity = LIBSBML_OVERRIDE_WARNING\<rparr>
   \<and> getNumErrors LIBSBML_SEV_FATAL
       (snd (nonStrictChecks (example_checking_env LIBSBML_SEV_WARNING) example_doc_checked)) = 0
   \<and> getNumErrors LIBSBML_SEV_ERROR
       (snd (nonStrictChecks (example_checking_env LIBSBML_SEV_WARNING) example_doc_checked)) = 0
   \<and> fst (checkConsistencyWithStrictUnits (example_checking_env LIBSBML_SEV_WARNING) example_doc_checked) = 5
   \<and> mErrorLog (snd (checkConsistencyWithStrictUnits (example_checking_env LIBSBML_SEV_WARNING)
                         example_doc_checked))
       = \<lparr>mErrors =
            [\<lparr>getErrorId = ErrorId 20101, getSeverity = LIBSBML_SEV_WARNING\<rparr>,
             \<lparr>getErrorId = ErrorId 1020101, getSeverity = LIBSBML_SEV_WARNING\<rparr>,
             \<lparr>getErrorId = ErrorId 1020102, getSeverity = LIBSBML_SEV_INFO\<rparr>,
             \<lparr>getErrorId = ErrorId 99999, getSeverity = LIBSBML_SEV_WARNING\<rparr>,
             \<lparr>getErrorId = ErrorId 10501, getSeverity = LIBSBML_SEV_ERROR\<rparr>],
          mOverriddenSeverity = LIBSBML_OVERRIDE_WARNING\<rparr>"
proof -
  have env: "\<And>sev. (example_checking_env sev)\<lparr>StrictUnitConsistencyValidator_validate :=
               StrictUnitConsistencyValidator_validate (example_checking_env sev)\<rparr>
             = example_checking_env sev"
    by simp
  have sv: "\<And>sev. StrictUnitConsistencyValidator_validate (example_checking_env sev) =
              (\<lambda>d. (1, [\<lparr>getErrorId = ErrorId 10501, getSeverity = LIBSBML_SEV_WARNING\<rparr>]))"
    by (simp add: example_checking_env_def example_env_def)
  have prior: "getSeverityOverride (mErrorLog example_doc_checked) = LIBSBML_OVERRIDE_WARNING"
    by (simp add: example_doc_checked_def example_doc_def example_log_def getSeverityOverride_def)
  have e1: "getNumErrors LIBSBML_SEV_ERROR
       (snd (nonStrictChecks (example_checking_env LIBSBML_SEV_ERROR) example_doc_checked)) > 0"
    unfolding nonStrictChecks_example
    by (simp add: getNumErrors_def getNumFailsWithSeverity_def)
  have e2: "getNumErrors LIBSBML_SEV_FATAL
       (snd (nonStrictChecks (example_checking_env LIBSBML_SEV_WARNING) example_doc_checked)) = 0"
       "getNumErrors LIBSBML_SEV_ERROR
       (snd (nonStrictChecks (example_checking_env LIBSBML_SEV_WARNING) example_doc_checked)) = 0"
    unfolding nonStrictChecks_example
    by (simp_all add: getNumErrors_def getNumFailsWithSeverity_def)
  note g1 = strict_units_gate [of "example_checking_env LIBSBML_SEV_ERROR" example_doc_checked
                "StrictUnitConsistencyValidator_validate (example_checking_env LIBSBML_SEV_ERROR)",
                unfolded env]
  note g2 = strict_units_gate [of "example_checking_env LIBSBML_SEV_WARNING" example_doc_checked
                "StrictUnitConsistencyValidator_validate (example_checking_env LIBSBML_SEV_WARNING)",
                unfolded env]
  from g1 e1 have r1:
    "checkConsistencyWithStrictUnits (example_checking_env LIBSBML_SEV_ERROR) example_doc_checked
       = (fst (nonStrictChecks (example_checking_env LIBSBML_SEV_ERROR) example_doc_checked),
          withOverride (getSeverityOverride (mErrorLog example_doc_checked))
            (snd (nonStrictChecks (example_checking_env LIBSBML_SEV_ERROR) example_doc_checked)))"
    by blast
  from g2 e2 have r2:
    "(let d1 = snd (nonStrictChecks (example_checking_env LIBSBML_SEV_WARNING) example_doc_checked);
          (nerrors, failures) =
             StrictUnitConsistencyValidator_validate (example_checking_env LIBSBML_SEV_WARNING)
               (withOverride LIBSBML_OVERRIDE_ERROR d1)
      in checkConsistencyWithStrictUnits (example_checking_env LIBSBML_SEV_WARNING) example_doc_checked
           = (fst (nonStrictChecks (example_checking_env LIBSBML_SEV_WARNING) example_doc_checked) + nerrors,
              d1\<lparr>mErrorLog :=
                   \<lparr>mErrors = mErrors (mErrorLog d1)
                      @ (if nerrors > 0
                         then map (\<lambda>e. e\<lparr>getSeverity := LIBSBML_SEV_ERROR\<rparr>) failures else []),
                    mOverriddenSeverity = getSeverityOverride (mErrorLog example_doc_checked)\<rparr>\<rparr>))"
    by blast
  have a: "fst (checkConsistencyWithStrictUnits (example_checking_env LIBSBML_SEV_ERROR)
                  example_doc_checked) = 4"
    unfolding r1 nonStrictChecks_example by simp
  have b: "mErrorLog (snd (checkConsistencyWithStrictUnits (example_checking_env LIBSBML_SEV_ERROR)
                         example_doc_checked))
       = \<lparr>mErrors =
            [\<lparr>getErrorId = ErrorId 20101, getSeverity = LIBSBML_SEV_ERROR\<rparr>,
             \<lparr>getErrorId = ErrorId 1020101, getSeverity = LIBSBML_SEV_WARNING\<rparr>,
             \<lparr>getErrorId = ErrorId 1020102, getSeverity = LIBSBML_SEV_INFO\<rparr>,
             \<lparr>getErrorId = ErrorId 99999, getSeverity = LIBSBML_SEV_WARNING\<rparr>],
          mOverriddenSeverity = LIBSBML_OVERRIDE_WARNING\<rparr>"
    unfolding r1 nonStrictChecks_example prior
    by (simp add: setSeverityOverride_def)
  from r2 have r2': "checkConsistencyWithStrictUnits (example_checking_env LIBSBML_SEV_WARNING)
                        example_doc_checked
       = (5, (snd (nonStrictChecks (example_checking_env LIBSBML_SEV_WARNING) example_doc_checked))
                \<lparr>mErrorLog :=
                   \<lparr>mErrors = mErrors (mErrorLog (snd (nonStrictChecks
                                 (example_checking_env LIBSBML_SEV_WARNING) example_doc_checked)))
                      @ [\<lparr>getErrorId = ErrorId 10501, getSeverity = LIBSBML_SEV_ERROR\<rparr>],
                    mOverriddenSeverity = LIBSBML_OVERRIDE_WARNING\<rparr>\<rparr>)"
    unfolding sv prior nonStrictChecks_example by (simp add: Let_def)
  have c: "fst (checkConsistencyWithStrictUnits (example_checking_env LIBSBML_SEV_WARNING)
                  example_doc_checked) = 5"
    unfolding r2' by simp
  have d: "mErrorLog (snd (checkConsistencyWithStrictUnits (example_checking_env LIBSBML_SEV_WARNING)
                         example_doc_checked))
       = \<lparr>mErrors =
            [\<lparr>getErrorId = ErrorId 20101, getSeverity = LIBSBML_SEV_WARNING\<rparr>,
             \<lparr>getErrorId = ErrorId 1020101, getSeverity = LIBSBML_SEV_WARNING\<rparr>,
             \<lparr>getErrorId = ErrorId 1020102, getSeverity = LIBSBML_SEV_INFO\<rparr>,
             \<lparr>getErrorId = ErrorId 99999, getSeverity = LIBSBML_SEV_WARNING\<rparr>,
             \<lparr>getErrorId = ErrorId 10501, getSeverity = LIBSBML_SEV_ERROR\<rparr>],
          mOverriddenSeverity = LIBSBML_OVERRIDE_WARNING\<rparr>"
    unfolding r2' nonStrictChecks_example by simp
  from e1 e2 a b c d show ?thesis by blast
qed

subsection \<open>convert without a matching converter\<close>

text \<open>
  C2.  When the registry has no converter for the properties, \<open>convert\<close> returns
  \<open>LIBSBML_CONV_CONVERSION_NOT_AVAILABLE\<close>, a code of its own (not the success code
  and not another failure code), and the document it leaves is the document it
  was given: level, version, model, error log and all.
\<close>

theorem convert_no_converter:
  "getConverterFor props = None \<Longrightarrow>
     convert getConverterFor converter_convert props d = (LIBSBML_CONV_CONVERSION_NOT_AVAILABLE, d)
     \<and> fst (convert getConverterFor converter_convert props d)
         \<notin> {LIBSBML_OPERATION_SUCCESS, LIBSBML_OPERATION_FAILED, LIBSBML_PKG_UNKNOWN_VERSION,
             LIBSBML_CONV_INVALID_SRC_DOCUMENT, LIBSBML_CONV_INVALID_TARGET_NAMESPACE}"
  by (simp add: convert_def)

theorem convert_no_converter_witness:
  "(\<lambda>p::unit. None :: unit option) () = None
   \<and> convert (\<lambda>p::unit. None :: unit option) (\<lambda>c p d. (LIBSBML_OPERATION_SUCCESS, d\<lparr>mLevel := 2\<rparr>)) ()
       example_doc = (LIBSBML_CONV_CONVERSION_NOT_AVAILABLE, example_doc)"
  using convert_no_converter [of "\<lambda>p::unit. None :: unit option" "()"
          "\<lambda>c p d. (LIBSBML_OPERATION_SUCCESS, d\<lparr>mLevel := 2\<rparr>)" example_doc]
  by simp

text \<open>So \<open>setLevelAndVersion\<close> reports failure and leaves the document alone.\<close>

lemma setLevelAndVersion_no_converter:
  "getConverterFor (mkProps level version strict ignorePackages) = None \<Longrightarrow>
     setLevelAndVersion getConverterFor converter_convert mkProps level version strict ignorePackages d
       = (False, d)"
  by (simp add: setLevelAndVersion_def convert_def)

subsection \<open>Searches by id and by metaid\<close>

text \<open>
  C10.  Called with the empty string, \<open>getElementBySId\<close> and \<open>getElementByMetaId\<close>
  return nothing, whatever the model's and the plugins' searches would answer.
  \<open>getElementBySId\<close> never returns the document.  \<open>getElementByMetaId\<close> returns the
  document itself when the metaid is not empty and is the document's own.
\<close>

theorem getElement_empty_and_document:
  "getElementBySId ta d [] = None
   \<and> getElementByMetaId ta d [] = None
   \<and> getElementBySId ta d sid \<noteq> Some ThisDocument
   \<and> (metaid \<noteq> [] \<and> mMetaId d = metaid \<longrightarrow> getElementByMetaId ta d metaid = Some ThisDocument)"
  by (auto simp: getElementBySId_def getElementByMetaId_def Let_def split: option.splits if_splits)

theorem getElement_empty_and_document_witness:
  "''meta_doc'' \<noteq> [] \<and> mMetaId example_doc = ''meta_doc''
   \<and> getElementByMetaId example_tree example_doc ''meta_doc'' = Some ThisDocument
   \<and> Model_getElementBySId example_tree () [] = Some 7
   \<and> getElementBySId example_tree example_doc [] = None"
  using getElement_empty_and_document [of example_tree example_doc "[]" "''meta_doc''"]
  by (simp add: example_doc_def example_tree_def)

subsection \<open>Unit failures in the compatibility checks\<close>

lemma scan_assign_iff:
  "scan_assign env level version b errs \<longleftrightarrow>
     b \<or> (\<exists>e \<in> set errs. getLevelVersionSeverity env (getErrorId e) level version = LIBSBML_SEV_ERROR)"
  by (induction errs arbitrary: b) auto

lemma scan_if_iff:
  "scan_if env level version b errs \<longleftrightarrow>
     b \<or> (\<exists>e \<in> set errs. getLevelVersionSeverity env (getErrorId e) level version = LIBSBML_SEV_ERROR)"
  by (induction errs arbitrary: b) auto

text \<open>
  What the four checks do with the unit validator's failures when it reports some
  and \<open>inConversion\<close> is false: one \<open>strict units required\<close> error and one more in the
  count when some failure's code has severity error in the revision the scan looks
  up, nothing logged and nothing counted otherwise.  The revision looked up is
  Level 1 Version 2 in \<open>checkL1Compatibility\<close>, \<open>checkL2v2Compatibility\<close> and
  \<open>checkL2v3Compatibility\<close>, and Level 2 Version 1 in \<open>checkL2v1Compatibility\<close>.
\<close>

lemma checkL1Compatibility_units:
  assumes "internal_checkL1Compatibility env d = (nerrors, lg)"
    and "UnitConsistencyValidator_validate env (d\<lparr>mErrorLog := lg\<rparr>) = (unit_errors, errors)"
    and "unit_errors > 0"
  shows "checkL1Compatibility env False d =
     (if \<exists>e \<in> set errors. getLevelVersionSeverity env (getErrorId e) 1 2 = LIBSBML_SEV_ERROR
      then (nerrors + 1,
            d\<lparr>mErrorLog := logError env StrictUnitsRequiredInL1 (mLevel d) (mVersion d) lg\<rparr>)
      else (nerrors, d\<lparr>mErrorLog := lg\<rparr>))"
  using assms by (simp add: checkL1Compatibility_def scan_assign_iff)

lemma checkL2v1Compatibility_units:
  assumes "internal_checkL2v1Compatibility env d = (nerrors, lg)"
    and "UnitConsistencyValidator_validate env (d\<lparr>mErrorLog := lg\<rparr>) = (unit_errors, errors)"
    and "unit_errors > 0"
  shows "checkL2v1Compatibility env False d =
     (if \<exists>e \<in> set errors. getLevelVersionSeverity env (getErrorId e) 2 1 = LIBSBML_SEV_ERROR
      then (nerrors + 1,
            d\<lparr>mErrorLog := logError env StrictUnitsRequiredInL2v1 (mLevel d) (mVersion d) lg\<rparr>)
      else (nerrors, d\<lparr>mErrorLog := lg\<rparr>))"
  using assms by (simp add: checkL2v1Compatibility_def scan_if_iff)

lemma checkL2v2Compatibility_units:
  assumes "internal_checkL2v2Compatibility env d = (nerrors, lg)"
    and "UnitConsistencyValidator_validate env (d\<lparr>mErrorLog := lg\<rparr>) = (unit_errors, errors)"
    and "unit_errors > 0"
  shows "checkL2v2Compatibility env False d =
     (if \<exists>e \<in> set errors. getLevelVersionSeverity env (getErrorId e) 1 2 = LIBSBML_SEV_ERROR
      then (nerrors + 1,
            d\<lparr>mErrorLog := logError env StrictUnitsRequiredInL2v2 (mLevel d) (mVersion d) lg\<rparr>)
      else (nerrors, d\<lparr>mErrorLog := lg\<rparr>))"
  using assms by (simp add: checkL2v2Compatibility_def scan_assign_iff)

lemma checkL2v3Compatibility_units:
  assumes "internal_checkL2v3Compatibility env d = (nerrors, lg)"
    and "UnitConsistencyValidator_validate env (d\<lparr>mErrorLog := lg\<rparr>) = (unit_errors, errors)"
    and "unit_errors > 0"
  shows "checkL2v3Compatibility env False d =
     (if \<exists>e \<in> set errors. getLevelVersionSeverity env (getErrorId e) 1 2 = LIBSBML_SEV_ERROR
      then (nerrors + 1,
            d\<lparr>mErrorLog := logError env StrictUnitsRequiredInL2v3 (mLevel d) (mVersion d) lg\<rparr>)
      else (nerrors, d\<lparr>mErrorLog := lg\<rparr>))"
  using assms by (simp add: checkL2v3Compatibility_def scan_assign_iff)

text \<open>
  C1.  With a severity table in which failure 10501 is an error at Level 2
  Version 2 and at Level 2 Version 3 but a warning at Level 1 Version 2, and a unit
  validator that reports that failure, \<open>checkL2v2Compatibility\<close> and
  \<open>checkL2v3Compatibility\<close> (with \<open>inConversion\<close> false) log nothing and count nothing
  for the unit failure, although its code has severity error at the target
  revision: they look the severity up at Level 1 Version 2.
\<close>

theorem checkL2v2_L2v3_consult_L1v2:
  "getLevelVersionSeverity example_env (ErrorId 10501) 2 2 = LIBSBML_SEV_ERROR
   \<and> getLevelVersionSeverity example_env (ErrorId 10501) 2 3 = LIBSBML_SEV_ERROR
   \<and> UnitConsistencyValidator_validate example_env example_doc
       = (1, [\<lparr>getErrorId = ErrorId 10501, getSeverity = LIBSBML_SEV_WARNING\<rparr>])
   \<and> checkL2v2Compatibility example_env False example_doc = (0, example_doc)
   \<and> checkL2v3Compatibility example_env False example_doc = (0, example_doc)"
  by (simp add: getLevelVersionSeverity_def example_env_def example_ctor_def
        checkL2v2Compatibility_def checkL2v3Compatibility_def example_doc_def)

section \<open>Properties of the duplicate-identifier constraint\<close>

text \<open>A run is the walk over the checked objects, followed by \<open>reset\<close>.\<close>

lemma doCheckIds_append:
  "doCheckIds (xs @ ys) s = doCheckIds ys (doCheckIds xs s)"
  by (induction xs arbitrary: s) simp_all

lemma doCheck_coordinateComponents_objects:
  "doCheck_coordinateComponents ccs s =
     map_option (\<lambda>objs. doCheckIds objs s) (objects_of_coordinateComponents ccs)"
  by (induction ccs arbitrary: s) (simp_all add: Let_def split: option.splits)

lemma doCheck_compartments_objects:
  "doCheck_compartments cs s =
     map_option (\<lambda>objs. doCheckIds objs s) (objects_of_compartments cs)"
  by (induction cs arbitrary: s) (simp_all add: Let_def doCheckIds_append split: option.splits)

lemma doCheck_geometry_objects:
  "doCheck_geometry g s = map_option (\<lambda>objs. doCheckIds objs s) (objects_of_geometry g)"
  by (simp add: doCheck_geometry_def objects_of_geometry_def doCheck_coordinateComponents_objects
        doCheckIds_append Let_def split: option.splits)

lemma doCheck_objects:
  "doCheck m s = map_option (\<lambda>objs. reset (doCheckIds objs s)) (checked_objects m)"
  by (simp add: doCheck_def checked_objects_def doCheck_geometry_objects
        doCheck_compartments_objects doCheckIds_append split: option.splits)

lemma find_snoc:
  "find P (xs @ [x]) = (case find P xs of Some y \<Rightarrow> Some y | None \<Rightarrow> if P x then Some x else None)"
  by (induction xs) auto

lemma idmap_of_snoc:
  "idmap_of (seen @ [x]) =
     (if isSetId x \<and> idmap_of seen (getId x) = None then (idmap_of seen)(getId x \<mapsto> x)
      else idmap_of seen)"
  by (rule ext) (auto simp: idmap_of_def find_snoc split: option.splits)

lemma doCheckId_map:
  assumes "mIdMap s = idmap_of seen"
  shows "mIdMap (doCheckId x s) = idmap_of (seen @ [x])"
  using assms
  by (simp add: doCheckId_def idmap_of_snoc logIdConflict_def logFailure_def split: option.splits)

lemma doCheckId_failures:
  assumes "mIdMap s = idmap_of seen"
  shows "mFailures (doCheckId x s) = mFailures s @ conflict_at (seen @ x # rest) (length seen)"
  using assms
  by (simp add: doCheckId_def logIdConflict_def logFailure_def getMessage_def
        conflict_at_def conflict_message_def idmap_of_def split: option.splits)

lemma doCheckIds_from:
  "mIdMap s = idmap_of seen \<Longrightarrow>
     mFailures (doCheckIds objs s) =
       mFailures s @ concat (map (\<lambda>i. conflict_at (seen @ objs) (length seen + i)) [0..<length objs])
     \<and> mIdMap (doCheckIds objs s) = idmap_of (seen @ objs)"
proof (induction objs arbitrary: s seen)
  case Nil
  then show ?case by simp
next
  case (Cons x objs)
  have m: "mIdMap (doCheckId x s) = idmap_of (seen @ [x])"
    using Cons.prems by (rule doCheckId_map)
  have f: "mFailures (doCheckId x s) = mFailures s @ conflict_at (seen @ x # objs) (length seen)"
    using Cons.prems by (rule doCheckId_failures)
  have up: "[0..<length (x # objs)] = 0 # map Suc [0..<length objs]"
    by (simp add: upt_conv_Cons map_Suc_upt del: upt_Suc)
  from Cons.IH [OF m] f show ?case
    unfolding up by (simp add: comp_def)
qed


lemma reset_state:
  "reset s = \<lparr>mIdMap = Map.empty, mFailures = mFailures s\<rparr>"
  by (simp add: reset_def)

text \<open>
  C7.  Starting from an empty scratch map, the failures a sequence of checked
  objects adds to the log are exactly the conflicts the spec describes, in order:
  the \<open>i\<close>-th object adds one failure when its id is set and an earlier object of the
  sequence has the same id set, and none otherwise; the failure's message
  (\<open>conflict_message\<close>) names the object's element kind, the element kind of the
  first earlier object with that id, the id, and that earlier object's line when it
  is not zero.  The scratch map ends up holding, for each id, the first object seen
  with it.  A run of \<open>doCheck\<close> over a model logs these failures for the objects it
  checks.
\<close>

theorem doCheckIds_logs_exactly_the_conflicts:
  assumes "mIdMap s = Map.empty"
  shows "mFailures (doCheckIds objs s)
           = mFailures s @ concat (map (conflict_at objs) [0..<length objs])
       \<and> mIdMap (doCheckIds objs s) = idmap_of objs
       \<and> (checked_objects m = Some objs \<longrightarrow>
            doCheck m s = Some \<lparr>mIdMap = Map.empty,
                                 mFailures = mFailures s
                                   @ concat (map (conflict_at objs) [0..<length objs])\<rparr>)"
proof -
  from assms have "mIdMap s = idmap_of []"
    by (simp add: idmap_of_def)
  from doCheckIds_from [OF this, of objs]
  have f: "mFailures (doCheckIds objs s)
             = mFailures s @ concat (map (conflict_at objs) [0..<length objs])"
    and m: "mIdMap (doCheckIds objs s) = idmap_of objs"
    by simp_all
  from f have "checked_objects m = Some objs \<Longrightarrow>
      doCheck m s = Some \<lparr>mIdMap = Map.empty,
                           mFailures = mFailures s
                             @ concat (map (conflict_at objs) [0..<length objs])\<rparr>"
    by (simp add: doCheck_objects reset_state)
  with f m show ?thesis by blast
qed

lemma checked_objects_example:
  "checked_objects example_model = Some example_model_objects"
  by (simp add: checked_objects_def example_model_def objects_of_geometry_def
        example_model_objects_def)

lemma conflicts_example_objects:
  "concat (map (conflict_at example_objects) [0..<length example_objects]) =
     [\<lparr>failObject = \<lparr>getElementName = ''domain'', isSetId = True, getId = ''d1'', getLine = 20\<rparr>,
       failMessage = ''  The <domain> id 'd1' conflicts with the previously defined <domainType> id 'd1' at line 12.''\<rparr>]"
  by (simp add: example_objects_def conflict_at_def conflict_message_def upt_conv_Cons
        string_of_nat.simps)

lemma conflicts_example_model:
  "concat (map (conflict_at example_model_objects) [0..<length example_model_objects]) =
     [\<lparr>failObject = \<lparr>getElementName = ''domainType'', isSetId = True, getId = ''g'', getLine = 12\<rparr>,
       failMessage = ''  The <domainType> id 'g' conflicts with the previously defined <geometry> id 'g'.''\<rparr>]"
  by (simp add: example_model_objects_def conflict_at_def conflict_message_def upt_conv_Cons)

theorem doCheckIds_logs_exactly_the_conflicts_witness:
  "mIdMap empty_constraint = Map.empty
   \<and> mFailures (doCheckIds example_objects empty_constraint) =
       [\<lparr>failObject = \<lparr>getElementName = ''domain'', isSetId = True, getId = ''d1'', getLine = 20\<rparr>,
         failMessage = ''  The <domain> id 'd1' conflicts with the previously defined <domainType> id 'd1' at line 12.''\<rparr>]
   \<and> checked_objects example_model = Some example_model_objects
   \<and> doCheck example_model empty_constraint =
       Some \<lparr>mIdMap = Map.empty,
             mFailures =
               [\<lparr>failObject = \<lparr>getElementName = ''domainType'', isSetId = True, getId = ''g'', getLine = 12\<rparr>,
                 failMessage = ''  The <domainType> id 'g' conflicts with the previously defined <geometry> id 'g'.''\<rparr>]\<rparr>"
proof -
  have e: "mIdMap empty_constraint = Map.empty" "mFailures empty_constraint = []"
    by (simp_all add: empty_constraint_def)
  from doCheckIds_logs_exactly_the_conflicts [OF e(1), of example_objects example_model]
  have a: "mFailures (doCheckIds example_objects empty_constraint) =
       [\<lparr>failObject = \<lparr>getElementName = ''domain'', isSetId = True, getId = ''d1'', getLine = 20\<rparr>,
         failMessage = ''  The <domain> id 'd1' conflicts with the previously defined <domainType> id 'd1' at line 12.''\<rparr>]"
    unfolding conflicts_example_objects e(2) by simp
  from doCheckIds_logs_exactly_the_conflicts [OF e(1), of example_model_objects example_model]
    checked_objects_example
  have b: "doCheck example_model empty_constraint =
       Some \<lparr>mIdMap = Map.empty,
             mFailures =
               [\<lparr>failObject = \<lparr>getElementName = ''domainType'', isSetId = True, getId = ''g'', getLine = 12\<rparr>,
                 failMessage = ''  The <domainType> id 'g' conflicts with the previously defined <geometry> id 'g'.''\<rparr>]\<rparr>"
    unfolding conflicts_example_model e(2) by simp
  from e(1) a checked_objects_example b show ?thesis by blast
qed

subsection \<open>Two runs in succession\<close>

text \<open>Every completed run ends with \<open>reset\<close>, whatever the scratch map held before.\<close>

lemma doCheck_clears_map:
  "doCheck m s = Some s' \<Longrightarrow> mIdMap s' = Map.empty"
  by (auto simp: doCheck_objects reset_def)

lemma doCheckId_shift_failures:
  "doCheckId x (s\<lparr>mFailures := L @ mFailures s\<rparr>)
     = (doCheckId x s)\<lparr>mFailures := L @ mFailures (doCheckId x s)\<rparr>"
  by (simp add: doCheckId_def logIdConflict_def logFailure_def getMessage_def split: option.splits)

lemma doCheckIds_shift_failures:
  "doCheckIds objs (s\<lparr>mFailures := L @ mFailures s\<rparr>)
     = (doCheckIds objs s)\<lparr>mFailures := L @ mFailures (doCheckIds objs s)\<rparr>"
  by (induction objs arbitrary: s) (simp_all add: doCheckId_shift_failures)

lemma doCheck_from_empty:
  assumes "mIdMap s = Map.empty"
  shows "doCheck m s =
           map_option (\<lambda>t. \<lparr>mIdMap = Map.empty, mFailures = mFailures s @ mFailures t\<rparr>)
             (doCheck m empty_constraint)"
proof -
  from assms have s: "s = empty_constraint\<lparr>mFailures := mFailures s @ mFailures empty_constraint\<rparr>"
    by (simp add: empty_constraint_def)
  have "doCheck m (empty_constraint\<lparr>mFailures := mFailures s @ mFailures empty_constraint\<rparr>) =
           map_option (\<lambda>t. \<lparr>mIdMap = Map.empty, mFailures = mFailures s @ mFailures t\<rparr>)
             (doCheck m empty_constraint)"
    by (cases "checked_objects m")
       (simp_all add: doCheck_objects doCheckIds_shift_failures reset_state)
  with s show ?thesis by simp
qed




section \<open>Disabling and re-enabling an unknown package\<close>

lemma XMLAttr_eta [simp]:
  "\<lparr>attrName = attrName a, attrValue = attrValue a\<rparr> = a"
  by (cases a) simp

text \<open>What a call does to the two tables.\<close>

lemma disable_tables:
  "mRequiredAttrOfUnknownPkg (enablePackageInternal S M u p False d) =
     (case mRequiredAttrOfUnknownPkg d (u, p) of
        None \<Rightarrow> mRequiredAttrOfUnknownPkg d
      | Some a \<Rightarrow> (mRequiredAttrOfUnknownPkg d)((u, p) := None))"
  "mRequiredAttrOfUnknownDisabledPkg (enablePackageInternal S M u p False d) =
     (case mRequiredAttrOfUnknownPkg d (u, p) of
        None \<Rightarrow> mRequiredAttrOfUnknownDisabledPkg d
      | Some a \<Rightarrow> (mRequiredAttrOfUnknownDisabledPkg d)((u, p) \<mapsto> a))"
  by (simp_all add: enablePackageInternal_def find_entry_def XMLAttributes_add_def
        XMLAttributes_remove_def Let_def split: option.splits)

lemma enable_tables:
  "mRequiredAttrOfUnknownPkg (enablePackageInternal S M u p True d) =
     (case mRequiredAttrOfUnknownDisabledPkg d (u, p) of
        None \<Rightarrow> mRequiredAttrOfUnknownPkg d
      | Some a \<Rightarrow> (mRequiredAttrOfUnknownPkg d)((u, p) \<mapsto> a))"
  "mRequiredAttrOfUnknownDisabledPkg (enablePackageInternal S M u p True d) =
     (case mRequiredAttrOfUnknownDisabledPkg d (u, p) of
        None \<Rightarrow> mRequiredAttrOfUnknownDisabledPkg d
      | Some a \<Rightarrow> (mRequiredAttrOfUnknownDisabledPkg d)((u, p) := None))"
  by (simp_all add: enablePackageInternal_def find_entry_def XMLAttributes_add_def
        XMLAttributes_remove_def Let_def split: option.splits)

text \<open>A call for one package leaves the entries of every other key where they are.\<close>

lemma enablePackageInternal_other_keys:
  "k \<noteq> (u, p) \<Longrightarrow>
     mRequiredAttrOfUnknownPkg (enablePackageInternal S M u p flag d) k = mRequiredAttrOfUnknownPkg d k
     \<and> mRequiredAttrOfUnknownDisabledPkg (enablePackageInternal S M u p flag d) k
         = mRequiredAttrOfUnknownDisabledPkg d k"
  by (cases flag) (simp_all add: enable_tables disable_tables split: option.splits)

text \<open>
  C5.  In a document whose table of unknown packages holds an entry \<open>a\<close> under the
  namespace URI \<open>u\<close> and the prefix \<open>p\<close>, disabling that package takes the entry out
  of the table and keeps it in the table of disabled packages under the same key;
  re-enabling the package then leaves the table of unknown packages exactly what
  it was before the disable.  The table of disabled packages ends up without an
  entry under that key and is otherwise what it was.
\<close>

theorem disable_enable_restores_entry:
  assumes "mRequiredAttrOfUnknownPkg d (u, p) = Some a"
  shows "mRequiredAttrOfUnknownPkg (enablePackageInternal S M u p False d) (u, p) = None
       \<and> mRequiredAttrOfUnknownDisabledPkg (enablePackageInternal S M u p False d) (u, p) = Some a
       \<and> mRequiredAttrOfUnknownPkg
           (enablePackageInternal S M u p True (enablePackageInternal S M u p False d))
         = mRequiredAttrOfUnknownPkg d
       \<and> mRequiredAttrOfUnknownDisabledPkg
           (enablePackageInternal S M u p True (enablePackageInternal S M u p False d))
         = (mRequiredAttrOfUnknownDisabledPkg d)((u, p) := None)"
proof -
  let ?d1 = "enablePackageInternal S M u p False d"
  from assms have pkg1: "mRequiredAttrOfUnknownPkg ?d1 = (mRequiredAttrOfUnknownPkg d)((u, p) := None)"
    and dis1: "mRequiredAttrOfUnknownDisabledPkg ?d1 = (mRequiredAttrOfUnknownDisabledPkg d)((u, p) \<mapsto> a)"
    by (simp_all add: disable_tables)
  have readd: "mRequiredAttrOfUnknownPkg (enablePackageInternal S M u p True ?d1)
          = (mRequiredAttrOfUnknownPkg d)((u, p) \<mapsto> a)"
    by (simp add: enable_tables dis1 pkg1)
  from assms have "(mRequiredAttrOfUnknownPkg d)((u, p) \<mapsto> a) = mRequiredAttrOfUnknownPkg d"
    by (rule map_upd_triv)
  with readd have restored: "mRequiredAttrOfUnknownPkg (enablePackageInternal S M u p True ?d1)
          = mRequiredAttrOfUnknownPkg d"
    by simp
  have side: "mRequiredAttrOfUnknownDisabledPkg (enablePackageInternal S M u p True ?d1)
          = (mRequiredAttrOfUnknownDisabledPkg d)((u, p) := None)"
    by (simp add: enable_tables dis1)
  from pkg1 dis1 restored side show ?thesis by simp
qed

theorem disable_enable_restores_entry_witness:
  "mRequiredAttrOfUnknownPkg example_doc
       (''http://www.sbml.org/sbml/level3/version1/aaa/version1'', ''aaa'') = Some example_entry
   \<and> mRequiredAttrOfUnknownDisabledPkg
       (enablePackageInternal no_cascade no_cascade
          ''http://www.sbml.org/sbml/level3/version1/aaa/version1'' ''aaa'' False example_doc)
       (''http://www.sbml.org/sbml/level3/version1/aaa/version1'', ''aaa'') = Some example_entry
   \<and> mRequiredAttrOfUnknownPkg
       (enablePackageInternal no_cascade no_cascade
          ''http://www.sbml.org/sbml/level3/version1/aaa/version1'' ''aaa'' True
          (enablePackageInternal no_cascade no_cascade
             ''http://www.sbml.org/sbml/level3/version1/aaa/version1'' ''aaa'' False example_doc))
       = mRequiredAttrOfUnknownPkg example_doc
   \<and> mRequiredAttrOfUnknownDisabledPkg
       (enablePackageInternal no_cascade no_cascade
          ''http://www.sbml.org/sbml/level3/version1/aaa/version1'' ''aaa'' True
          (enablePackageInternal no_cascade no_cascade
             ''http://www.sbml.org/sbml/level3/version1/aaa/version1'' ''aaa'' False example_doc))
       (''http://www.sbml.org/sbml/level3/version1/aaa/version1'', ''old'')
       = Some \<lparr>attrName = ''required'', attrValue = ''false''\<rparr>"
proof -
  have h: "mRequiredAttrOfUnknownPkg example_doc
       (''http://www.sbml.org/sbml/level3/version1/aaa/version1'', ''aaa'') = Some example_entry"
    by (simp add: example_doc_def example_entry_def)
  have old: "mRequiredAttrOfUnknownDisabledPkg example_doc
       (''http://www.sbml.org/sbml/level3/version1/aaa/version1'', ''old'')
       = Some \<lparr>attrName = ''required'', attrValue = ''false''\<rparr>"
    by (simp add: example_doc_def)
  from disable_enable_restores_entry [OF h, of no_cascade no_cascade] h old
  show ?thesis by simp
qed

section \<open>The two serialization scenarios\<close>

text \<open>
  C8.  The unit definition \<open>mmls\<close> with the units mole (exponent 1, scale -3), liter
  (exponent -1, scale 0) and second (exponent -1, scale 0), written under the
  default revision, is one \<open>unitDefinition\<close> element named \<open>mmls\<close> whose only child is
  one \<open>listOfUnits\<close> wrapper with exactly three \<open>unit\<close> elements, in that order; each
  carries its kind, the exponent only where it is not 1 and the scale only where it
  is not 0.  The markup is the string the unit test expects.
\<close>

theorem mmls_serialized:
  \<open>UnitDefinition_to_xml default_revision mmls =
     Element ''unitDefinition'' [(''name'', ''mmls'')]
       [Element ''listOfUnits'' []
          [Element ''unit'' [(''kind'', ''mole''), (''scale'', ''-3'')] [],
           Element ''unit'' [(''kind'', ''liter''), (''exponent'', ''-1'')] [],
           Element ''unit'' [(''kind'', ''second''), (''exponent'', ''-1'')] []]]
   \<and> write_xml (UnitDefinition_to_xml default_revision mmls) =
       ''<?xml version="1.0" encoding="UTF-8"?>\<newline>''
       @ ''<unitDefinition name="mmls">\<newline>''
       @ ''  <listOfUnits>\<newline>''
       @ ''    <unit kind="mole" scale="-3"/>\<newline>''
       @ ''    <unit kind="liter" exponent="-1"/>\<newline>''
       @ ''    <unit kind="second" exponent="-1"/>\<newline>''
       @ ''  </listOfUnits>\<newline>''
       @ ''</unitDefinition>\<newline>''\<close>
  by (simp add: UnitDefinition_to_xml_def Unit_to_xml_def mmls_def Unit_createWith_def listOf_def
        unless_default_def if_set_def string_of_int_def string_of_nat.simps write_xml_def XML_HEADER_def
        render_attribute_def)

text \<open>
  C9.  The reaction \<open>v1\<close> with the single reactant \<open>x0\<close>, the single product \<open>s1\<close>
  (stoichiometry 1, denominator 1) and the kinetic law \<open>(vm * s1)/(km + s1)\<close> without
  units, written under the default revision, has a list of reactants with exactly
  one species reference, a list of products with exactly one species reference, and
  one \<open>kineticLaw\<close> element whose only attribute is the formula.  The markup is the
  string the unit test expects.
\<close>

theorem v1_serialized:
  \<open>Reaction_to_xml default_revision v1 =
     Element ''reaction'' [(''name'', ''v1'')]
       [Element ''listOfReactants'' [] [Element ''speciesReference'' [(''species'', ''x0'')] []],
        Element ''listOfProducts'' [] [Element ''speciesReference'' [(''species'', ''s1'')] []],
        Element ''kineticLaw'' [(''formula'', ''(vm * s1)/(km + s1)'')] []]
   \<and> write_xml (Reaction_to_xml default_revision v1) =
       ''<?xml version="1.0" encoding="UTF-8"?>\<newline>''
       @ ''<reaction name="v1">\<newline>''
       @ ''  <listOfReactants>\<newline>''
       @ ''    <speciesReference species="x0"/>\<newline>''
       @ ''  </listOfReactants>\<newline>''
       @ ''  <listOfProducts>\<newline>''
       @ ''    <speciesReference species="s1"/>\<newline>''
       @ ''  </listOfProducts>\<newline>''
       @ ''  <kineticLaw formula="(vm * s1)/(km + s1)"/>\<newline>''
       @ ''</reaction>\<newline>''\<close>
  by (simp add: Reaction_to_xml_def SpeciesReference_to_xml_def KineticLaw_to_xml_def v1_def
        SpeciesReference_createWith_def listOf_def species_word_def default_revision_def
        unless_default_def if_set_def string_of_int_def string_of_nat.simps write_xml_def XML_HEADER_def
        render_attribute_def)

end
